theory Spec2Isabelle
  imports Main "HOL-Library.Word"
begin

unbundle bit_operations_syntax

text \<open>
  The serial protocol library \<open>Comm\<close> (frames \<open>{CMD:DATA#SEQ#CRC}\<close> with ACK, NAK
  and bounded retry) as functions of HOL. Each C function is the function of the same
  name; a function that writes through its \<open>instance\<close> pointer takes the instance and
  returns it, and one that calls the HAL or a user callback threads the environment
  \<open>hal_t\<close> the same way. Instance and frame pointers are the addresses of objects of
  the manager and are taken to be valid, so the \<open>NULL\<close> guards on them are not
  branches of the model; the \<open>NULL\<close> guards on the arguments of the public send and of
  the CRC function are. The byte interrupt and the tick are taken not to preempt one
  another.
\<close>

section \<open>CRC engine (comm\_protocol.c)\<close>

text \<open>
  Bytes on the wire and in the C buffers are \<^typ>\<open>char\<close> (eight bits); the values the
  code computes with as \<open>uint8_t\<close>, \<open>uint16_t\<close> and \<open>uint32_t\<close> are words of
  that width. The cast \<open>(uint8_t*)\<close> of a \<open>char\<close> buffer is \<open>map of_char\<close>.
\<close>

type_synonym u8 = "8 word"
type_synonym u16 = "16 word"
type_synonym u32 = "32 word"

definition crc8_table :: "u8 list" where
  "crc8_table = [
    0x00, 0x07, 0x0E, 0x09, 0x1C, 0x1B, 0x12, 0x15,
    0x38, 0x3F, 0x36, 0x31, 0x24, 0x23, 0x2A, 0x2D,
    0x70, 0x77, 0x7E, 0x79, 0x6C, 0x6B, 0x62, 0x65,
    0x48, 0x4F, 0x46, 0x41, 0x54, 0x53, 0x5A, 0x5D,
    0xE0, 0xE7, 0xEE, 0xE9, 0xFC, 0xFB, 0xF2, 0xF5,
    0xD8, 0xDF, 0xD6, 0xD1, 0xC4, 0xC3, 0xCA, 0xCD,
    0x90, 0x97, 0x9E, 0x99, 0x8C, 0x8B, 0x82, 0x85,
    0xA8, 0xAF, 0xA6, 0xA1, 0xB4, 0xB3, 0xBA, 0xBD,
    0xC7, 0xC0, 0xC9, 0xCE, 0xDB, 0xDC, 0xD5, 0xD2,
    0xFF, 0xF8, 0xF1, 0xF6, 0xE3, 0xE4, 0xED, 0xEA,
    0xB7, 0xB0, 0xB9, 0xBE, 0xAB, 0xAC, 0xA5, 0xA2,
    0x8F, 0x88, 0x81, 0x86, 0x93, 0x94, 0x9D, 0x9A,
    0x27, 0x20, 0x29, 0x2E, 0x3B, 0x3C, 0x35, 0x32,
    0x1F, 0x18, 0x11, 0x16, 0x03, 0x04, 0x0D, 0x0A,
    0x57, 0x50, 0x59, 0x5E, 0x4B, 0x4C, 0x45, 0x42,
    0x6F, 0x68, 0x61, 0x66, 0x73, 0x74, 0x7D, 0x7A,
    0x89, 0x8E, 0x87, 0x80, 0x95, 0x92, 0x9B, 0x9C,
    0xB1, 0xB6, 0xBF, 0xB8, 0xAD, 0xAA, 0xA3, 0xA4,
    0xF9, 0xFE, 0xF7, 0xF0, 0xE5, 0xE2, 0xEB, 0xEC,
    0xC1, 0xC6, 0xCF, 0xC8, 0xDD, 0xDA, 0xD3, 0xD4,
    0x69, 0x6E, 0x67, 0x60, 0x75, 0x72, 0x7B, 0x7C,
    0x51, 0x56, 0x5F, 0x58, 0x4D, 0x4A, 0x43, 0x44,
    0x19, 0x1E, 0x17, 0x10, 0x05, 0x02, 0x0B, 0x0C,
    0x21, 0x26, 0x2F, 0x28, 0x3D, 0x3A, 0x33, 0x34,
    0x4E, 0x49, 0x40, 0x47, 0x52, 0x55, 0x5C, 0x5B,
    0x76, 0x71, 0x78, 0x7F, 0x6A, 0x6D, 0x64, 0x63,
    0x3E, 0x39, 0x30, 0x37, 0x22, 0x25, 0x2C, 0x2B,
    0x06, 0x01, 0x08, 0x0F, 0x1A, 0x1D, 0x14, 0x13,
    0xAE, 0xA9, 0xA0, 0xA7, 0xB2, 0xB5, 0xBC, 0xBB,
    0x96, 0x91, 0x98, 0x9F, 0x8A, 0x8D, 0x84, 0x83,
    0xDE, 0xD9, 0xD0, 0xD7, 0xC2, 0xC5, 0xCC, 0xCB,
    0xE6, 0xE1, 0xE8, 0xEF, 0xFA, 0xFD, 0xF4, 0xF3]"

text \<open>
  The loop of the table-driven variant (\<open>COMM_ENABLE_FAST_CRC\<close> set, the configuration
  of \<open>comm_internal.h\<close>): \<open>crc = crc8_table[crc ^ data[i]]\<close> for each byte in turn.
\<close>

fun crc8_table_loop :: "u8 \<Rightarrow> u8 list \<Rightarrow> u8" where
  "crc8_table_loop crc [] = crc"
| "crc8_table_loop crc (b # bs) = crc8_table_loop (crc8_table ! unat (crc XOR b)) bs"

text \<open>
  The inner loop of the direct variant: \<open>j\<close> rounds of
  \<open>if (crc & 0x80) crc = (crc << 1) ^ 0x07; else crc <<= 1;\<close>.
\<close>

definition crc8_shift :: "u8 \<Rightarrow> u8" where
  "crc8_shift crc = (if crc AND 0x80 \<noteq> 0 then push_bit 1 crc XOR 0x07 else push_bit 1 crc)"

fun crc8_bit_loop :: "u8 \<Rightarrow> u8 list \<Rightarrow> u8" where
  "crc8_bit_loop crc [] = crc"
| "crc8_bit_loop crc (b # bs) = crc8_bit_loop ((crc8_shift ^^ 8) (crc XOR b)) bs"

text \<open>
  \<open>comm_crc8_calculate(data, length)\<close>. The pointer is \<open>None\<close> for \<open>NULL\<close>, otherwise
  the bytes it points to; the function reads the first \<open>length\<close> of them.
\<close>

definition comm_crc8_calculate :: "u8 list option \<Rightarrow> u16 \<Rightarrow> u8" where
  "comm_crc8_calculate data len =
     (case data of
        None \<Rightarrow> 0
      | Some bs \<Rightarrow> if len = 0 then 0 else crc8_table_loop 0 (take (unat len) bs))"

text \<open>The same function compiled with \<open>COMM_ENABLE_FAST_CRC\<close> cleared.\<close>

definition comm_crc8_calculate_direct :: "u8 list option \<Rightarrow> u16 \<Rightarrow> u8" where
  "comm_crc8_calculate_direct data len =
     (case data of
        None \<Rightarrow> 0
      | Some bs \<Rightarrow> if len = 0 then 0 else crc8_bit_loop 0 (take (unat len) bs))"

definition comm_crc8_verify :: "u8 list option \<Rightarrow> u16 \<Rightarrow> u8 \<Rightarrow> bool" where
  "comm_crc8_verify data len expected_crc = (comm_crc8_calculate data len = expected_crc)"

text \<open>
  The reference the specification names: CRC-8 with polynomial 0x07, initial value 0x00,
  no reflection of input or output, no final XOR. The message is a string of bits, each
  byte most significant bit first; the register is shifted left once per message bit and
  the polynomial is subtracted whenever the bit leaving the register differs from the
  message bit.
\<close>

definition crc8_spec_bit :: "u8 \<Rightarrow> bool \<Rightarrow> u8" where
  "crc8_spec_bit reg m = (if bit reg 7 \<noteq> m then push_bit 1 reg XOR 0x07 else push_bit 1 reg)"

definition msb_first :: "u8 \<Rightarrow> bool list" where
  "msb_first b = map (bit b) [7, 6, 5, 4, 3, 2, 1, 0]"

definition crc8_spec :: "u8 list \<Rightarrow> u8" where
  "crc8_spec bs = foldl crc8_spec_bit 0 (concat (map msb_first bs))"


section \<open>C strings and formatting\<close>

text \<open>
  A \<open>char\<close> array is the list of its elements. Reading it as a C string (\<open>%s\<close>,
  \<open>strlen\<close>, \<open>strcmp\<close>, \<open>strtol\<close>) stops at the first NUL; the arrays of the
  library always hold one.
\<close>

definition NUL :: char where
  "NUL = CHR 0x00"

definition cstr :: "string \<Rightarrow> string" where
  "cstr buf = takeWhile (\<lambda>c. c \<noteq> NUL) buf"

definition strlen :: "string \<Rightarrow> nat" where
  "strlen buf = length (cstr buf)"

text \<open>\<open>memset(buf, 0, n)\<close> over a whole array of \<open>n\<close> elements.\<close>

definition zeroed :: "nat \<Rightarrow> string" where
  "zeroed n = replicate n NUL"

text \<open>
  \<open>snprintf(buf, n, ...)\<close> where the formatted text is \<open>s\<close>: at most \<open>n - 1\<close>
  characters and a terminator are stored over the start of the array, the rest of the
  array keeps its contents, and the call returns \<open>length s\<close>.
\<close>

definition snprintf_store :: "nat \<Rightarrow> string \<Rightarrow> string \<Rightarrow> string" where
  "snprintf_store n s buf =
     (let w = take (n - 1) s @ [NUL] in w @ drop (length w) buf)"

text \<open>\<open>strncpy(dst, src, n)\<close> into an array of at least \<open>n\<close> elements.\<close>

definition strncpy :: "string \<Rightarrow> string \<Rightarrow> nat \<Rightarrow> string" where
  "strncpy dst src n =
     (let s = take n (cstr src) in s @ replicate (n - length s) NUL @ drop n dst)"

definition hex_upper :: "nat \<Rightarrow> char" where
  "hex_upper n = ''0123456789ABCDEF'' ! n"

text \<open>The conversion \<open>%02X\<close> of a \<open>uint8_t\<close> argument.\<close>

definition fmt_02X :: "u8 \<Rightarrow> string" where
  "fmt_02X v = [hex_upper (unat (drop_bit 4 v)), hex_upper (unat (v AND 0x0F))]"

text \<open>
  \<open>strtol(s, NULL, 16)\<close> in the C locale: leading white space, an optional sign, an
  optional \<open>0x\<close> or \<open>0X\<close>, then hexadecimal digits up to the first other character.
  \<open>long\<close> has 32 bits on the target (Cortex-M4), and a value out of its range is
  \<open>LONG_MAX\<close> or \<open>LONG_MIN\<close>.
\<close>

definition isspace :: "char \<Rightarrow> bool" where
  "isspace c = (c = CHR '' '' \<or> c = CHR 0x09 \<or> c = CHR 0x0A \<or> c = CHR 0x0B
                \<or> c = CHR 0x0C \<or> c = CHR 0x0D)"

definition hex_digit_val :: "char \<Rightarrow> nat option" where
  "hex_digit_val c =
     (let n = (of_char c :: nat) in
      if 48 \<le> n \<and> n \<le> 57 then Some (n - 48)
      else if 65 \<le> n \<and> n \<le> 70 then Some (n - 55)
      else if 97 \<le> n \<and> n \<le> 102 then Some (n - 87)
      else None)"

fun strtol_digits :: "nat \<Rightarrow> string \<Rightarrow> nat" where
  "strtol_digits acc [] = acc"
| "strtol_digits acc (c # cs) =
     (case hex_digit_val c of
        None \<Rightarrow> acc
      | Some d \<Rightarrow> strtol_digits (acc * 16 + d) cs)"

fun strtol_sign :: "string \<Rightarrow> bool \<times> string" where
  "strtol_sign [] = (False, [])"
| "strtol_sign (c # cs) =
     (if c = CHR ''-'' then (True, cs)
      else if c = CHR ''+'' then (False, cs)
      else (False, c # cs))"

fun strtol_prefix :: "string \<Rightarrow> string" where
  "strtol_prefix (c # x # cs) =
     (if c = CHR ''0'' \<and> (x = CHR ''x'' \<or> x = CHR ''X'') then cs else c # x # cs)"
| "strtol_prefix cs = cs"

definition strtol16 :: "string \<Rightarrow> int" where
  "strtol16 buf =
     (let (neg, s) = strtol_sign (dropWhile isspace (cstr buf));
          n = int (strtol_digits 0 (strtol_prefix s))
      in if neg then (if n > 2147483648 then - 2147483648 else - n)
         else (if n > 2147483647 then 2147483647 else n))"

section \<open>Data model (comm\_internal.h)\<close>

definition COMM_MAX_INSTANCES :: nat where "COMM_MAX_INSTANCES = 8"
definition COMM_RX_BUFFER_SIZE :: nat where "COMM_RX_BUFFER_SIZE = 256"
definition COMM_TX_BUFFER_SIZE :: nat where "COMM_TX_BUFFER_SIZE = 128"
definition COMM_MAX_CALLBACKS :: nat where "COMM_MAX_CALLBACKS = 8"
definition COMM_FRAME_START :: char where "COMM_FRAME_START = CHR ''{''"
definition COMM_FRAME_END :: char where "COMM_FRAME_END = CHR ''}''"
definition COMM_CMD_DATA_SEPARATOR :: char where "COMM_CMD_DATA_SEPARATOR = CHR '':''"
definition COMM_FIELD_SEPARATOR :: char where "COMM_FIELD_SEPARATOR = CHR ''#''"
definition COMM_MAX_CMD_LENGTH :: nat where "COMM_MAX_CMD_LENGTH = 16"
definition COMM_MAX_DATA_LENGTH :: nat where "COMM_MAX_DATA_LENGTH = 64"
definition COMM_FRAME_TIMEOUT_MS :: u32 where "COMM_FRAME_TIMEOUT_MS = 100"
definition COMM_CMD_ACK :: string where "COMM_CMD_ACK = ''ACK''"
definition COMM_CMD_NAK :: string where "COMM_CMD_NAK = ''NAK''"

datatype comm_state_t =
    COMM_STATE_IDLE
  | COMM_STATE_SENDING
  | COMM_STATE_WAIT_ACK
  | COMM_STATE_RETRY
  | COMM_STATE_RECEIVING
  | COMM_STATE_PROCESSING
  | COMM_STATE_ERROR

datatype frame_parse_state_t =
    FRAME_STATE_IDLE
  | FRAME_STATE_CMD
  | FRAME_STATE_WAIT_COLON
  | FRAME_STATE_DATA
  | FRAME_STATE_WAIT_HASH1
  | FRAME_STATE_SEQ
  | FRAME_STATE_WAIT_HASH2
  | FRAME_STATE_CRC
  | FRAME_STATE_WAIT_END
  | FRAME_STATE_COMPLETE
  | FRAME_STATE_ERROR

text \<open>
  Function pointers and the UART handle are identifiers; \<open>None\<close> is \<open>NULL\<close>.
\<close>

type_synonym fn_ptr = "nat option"
type_synonym uart_ptr = "nat option"

record comm_handler_t =
  handler_cmd :: string
  callback :: fn_ptr
  is_used :: bool

record comm_frame_t =
  cmd :: string
  data :: string
  sequence :: u8
  crc :: u8
  is_valid :: bool

record comm_instance_t =
  huart :: uart_ptr
  state :: comm_state_t
  parse_state :: frame_parse_state_t
  tx_sequence :: u8
  rx_sequence :: u8
  expected_ack_seq :: u8
  rx_buffer :: string
  tx_buffer :: string
  rx_index :: nat
  tx_length :: nat
  rx_byte :: char
  new_frame_available :: bool
  pending_frame :: comm_frame_t
  frame_timeout :: u32
  handlers :: "comm_handler_t list"
  handler_count :: u8
  timeout_ms :: u32
  max_retry :: u8
  retry_count :: u8
  last_send_time :: u32
  current_cmd :: string
  current_data :: string
  current_sequence :: u8
  debug_enabled :: bool
  fail_callback :: fn_ptr
  state_change_callback :: fn_ptr
  error_callback :: fn_ptr

record comm_manager_t =
  instances :: "comm_instance_t list"
  instance_count :: nat

text \<open>\<open>memset(&frame, 0, sizeof(comm_frame_t))\<close>.\<close>

definition zero_frame :: comm_frame_t where
  "zero_frame = \<lparr>cmd = zeroed (COMM_MAX_CMD_LENGTH + 1), data = zeroed (COMM_MAX_DATA_LENGTH + 1),
                  sequence = 0, crc = 0, is_valid = False\<rparr>"

section \<open>Sequence manager (comm\_protocol.c)\<close>

definition comm_get_next_tx_sequence :: "comm_instance_t \<Rightarrow> comm_instance_t \<times> u8" where
  "comm_get_next_tx_sequence instance =
     (let i1 = instance\<lparr>tx_sequence := tx_sequence instance + 1\<rparr>;
          i2 = (if tx_sequence i1 = 0 then i1\<lparr>tx_sequence := 1\<rparr> else i1)
      in (i2, tx_sequence i2))"

text \<open>
  \<open>int16_t diff = (int16_t)rx_seq - (int16_t)instance->rx_sequence\<close> and its adjustment.
  The difference of two bytes lies between -255 and 255, so no 16-bit operation wraps.
\<close>

definition rx_sequence_diff :: "comm_instance_t \<Rightarrow> u8 \<Rightarrow> int" where
  "rx_sequence_diff instance rx_seq =
     (let diff = uint rx_seq - uint (rx_sequence instance)
      in if diff < - 128 then diff + 256
         else if diff > 128 then diff - 256
         else diff)"

definition comm_is_valid_rx_sequence :: "comm_instance_t \<Rightarrow> u8 \<Rightarrow> bool" where
  "comm_is_valid_rx_sequence instance rx_seq =
     (let diff = rx_sequence_diff instance rx_seq
      in if diff \<ge> 1 \<and> diff \<le> 10 then True
         else if diff = 0 then False
         else if diff < 0 then False
         else False)"

definition comm_update_rx_sequence :: "comm_instance_t \<Rightarrow> u8 \<Rightarrow> comm_instance_t" where
  "comm_update_rx_sequence instance rx_seq = instance\<lparr>rx_sequence := rx_seq\<rparr>"

text \<open>
  The normalisation the specification words: the difference brought into the half-open
  range from -128 (excluded) to 128 (included) by adding or subtracting 256.
\<close>

definition spec_normalized_diff :: "int \<Rightarrow> int" where
  "spec_normalized_diff d = (if d \<le> - 128 then d + 256 else if d > 128 then d - 256 else d)"


section \<open>The environment: HAL and user callbacks\<close>

text \<open>
  What the library does to the outside is recorded as a trace: every transmission handed
  to the HAL with its bytes, every user callback invoked with its arguments, and the
  lines of \<open>COMM_ERROR_OUTPUT\<close>. The HAL is the tick counter \<open>HAL_GetTick\<close> reads
  (advanced by the environment between entry points) and the status each successive
  transmit call returns (\<open>True\<close> for \<open>HAL_OK\<close>). User callbacks are taken not to call back
  into the library. Debug output and statistics are compiled out
  (\<open>COMM_ENABLE_DEBUG\<close> and \<open>COMM_ENABLE_STATS\<close> are 0).
\<close>

datatype event =
    UART_Transmit uart_ptr string
  | UART_Transmit_IT uart_ptr string
  | Command_Callback nat string string
  | Fail_Callback nat string string string
  | State_Change_Callback nat uart_ptr string string u8
  | Error_Output_Not_Found uart_ptr
  | Error_Output_Comm_Failed uart_ptr string string u8

record hal_t =
  tick :: u32
  transmit_status :: "nat \<Rightarrow> bool"
  transmit_calls :: nat
  trace :: "event list"

definition HAL_GetTick :: "hal_t \<Rightarrow> u32" where
  "HAL_GetTick h = tick h"

definition emit :: "hal_t \<Rightarrow> event \<Rightarrow> hal_t" where
  "emit h e = h\<lparr>trace := trace h @ [e]\<rparr>"

definition HAL_UART_Transmit :: "hal_t \<Rightarrow> uart_ptr \<Rightarrow> string \<Rightarrow> hal_t \<times> bool" where
  "HAL_UART_Transmit h u bytes =
     (emit (h\<lparr>transmit_calls := Suc (transmit_calls h)\<rparr>) (UART_Transmit u bytes),
      transmit_status h (transmit_calls h))"

definition HAL_UART_Transmit_IT :: "hal_t \<Rightarrow> uart_ptr \<Rightarrow> string \<Rightarrow> hal_t \<times> bool" where
  "HAL_UART_Transmit_IT h u bytes =
     (emit (h\<lparr>transmit_calls := Suc (transmit_calls h)\<rparr>) (UART_Transmit_IT u bytes),
      transmit_status h (transmit_calls h))"

text \<open>A HAL at tick \<open>t\<close> with nothing sent yet, on which every transmission succeeds.\<close>

definition hal_all_ok :: "u32 \<Rightarrow> hal_t" where
  "hal_all_ok t = \<lparr>tick = t, transmit_status = (\<lambda>n. True), transmit_calls = 0, trace = []\<rparr>"

section \<open>Instance management (comm\_manager.c)\<close>

definition zero_handler :: comm_handler_t where
  "zero_handler = \<lparr>handler_cmd = zeroed (COMM_MAX_CMD_LENGTH + 1), callback = None, is_used = False\<rparr>"

text \<open>
  The instance \<open>comm_instance_init\<close> leaves behind: everything zero except the handle,
  the timeout and the retry limit.
\<close>

definition initialized_instance :: "uart_ptr \<Rightarrow> u32 \<Rightarrow> u8 \<Rightarrow> comm_instance_t" where
  "initialized_instance u timeout retries =
     \<lparr>huart = u, state = COMM_STATE_IDLE, parse_state = FRAME_STATE_IDLE,
      tx_sequence = 0, rx_sequence = 0, expected_ack_seq = 0,
      rx_buffer = zeroed COMM_RX_BUFFER_SIZE, tx_buffer = zeroed COMM_TX_BUFFER_SIZE,
      rx_index = 0, tx_length = 0, rx_byte = NUL, new_frame_available = False,
      pending_frame = zero_frame, frame_timeout = 0,
      handlers = replicate COMM_MAX_CALLBACKS zero_handler, handler_count = 0,
      timeout_ms = timeout, max_retry = retries, retry_count = 0, last_send_time = 0,
      current_cmd = zeroed COMM_MAX_CMD_LENGTH, current_data = zeroed COMM_MAX_DATA_LENGTH,
      current_sequence = 0, debug_enabled = False, fail_callback = None,
      state_change_callback = None, error_callback = None\<rparr>"

definition comm_instance_init :: "uart_ptr \<Rightarrow> u32 \<Rightarrow> u8 \<Rightarrow> comm_instance_t option" where
  "comm_instance_init u timeout retries =
     (if u = None then None else Some (initialized_instance u timeout retries))"

definition comm_instance_is_ready :: "comm_instance_t \<Rightarrow> bool" where
  "comm_instance_is_ready instance = (state instance = COMM_STATE_IDLE)"

fun comm_state_to_string :: "comm_state_t \<Rightarrow> string" where
  "comm_state_to_string COMM_STATE_IDLE = ''IDLE''"
| "comm_state_to_string COMM_STATE_SENDING = ''SENDING''"
| "comm_state_to_string COMM_STATE_WAIT_ACK = ''WAIT_ACK''"
| "comm_state_to_string COMM_STATE_RETRY = ''RETRY''"
| "comm_state_to_string COMM_STATE_RECEIVING = ''RECEIVING''"
| "comm_state_to_string COMM_STATE_PROCESSING = ''PROCESSING''"
| "comm_state_to_string COMM_STATE_ERROR = ''ERROR''"

definition comm_set_state :: "hal_t \<Rightarrow> comm_instance_t \<Rightarrow> comm_state_t \<Rightarrow> hal_t \<times> comm_instance_t" where
  "comm_set_state h instance new_state =
     (if state instance \<noteq> new_state then
        (let old_state_str = comm_state_to_string (state instance);
             new_state_str = comm_state_to_string new_state;
             i1 = instance\<lparr>state := new_state\<rparr>
         in case state_change_callback i1 of
              None \<Rightarrow> (h, i1)
            | Some f \<Rightarrow> (emit h (State_Change_Callback f (huart i1) old_state_str new_state_str
                                   (retry_count i1)), i1))
      else (h, instance))"

text \<open>The search loop of \<open>comm_find_callback_index\<close> from index \<open>i\<close> on.\<close>

fun find_callback_from :: "comm_handler_t list \<Rightarrow> nat \<Rightarrow> string \<Rightarrow> nat option" where
  "find_callback_from [] i name = None"
| "find_callback_from (x # rest) i name =
     (if callback x \<noteq> None \<and> cstr (handler_cmd x) = cstr name then Some i
      else find_callback_from rest (Suc i) name)"

definition comm_find_callback_index :: "comm_instance_t \<Rightarrow> string \<Rightarrow> nat option" where
  "comm_find_callback_index instance name =
     find_callback_from (take COMM_MAX_CALLBACKS (handlers instance)) 0 name"

definition comm_call_callback :: "hal_t \<Rightarrow> comm_instance_t \<Rightarrow> string \<Rightarrow> string \<Rightarrow> hal_t \<times> bool" where
  "comm_call_callback h instance name payload =
     (case comm_find_callback_index instance name of
        None \<Rightarrow> (h, False)
      | Some index \<Rightarrow>
          (case callback (handlers instance ! index) of
             None \<Rightarrow> (h, False)
           | Some f \<Rightarrow> (emit h (Command_Callback f (cstr name) (cstr payload)), True)))"

definition comm_call_fail_callback :: "hal_t \<Rightarrow> comm_instance_t \<Rightarrow> string \<Rightarrow> string \<Rightarrow> string \<Rightarrow> hal_t" where
  "comm_call_fail_callback h instance name payload reason =
     (case fail_callback instance of
        None \<Rightarrow> h
      | Some f \<Rightarrow> emit h (Fail_Callback f (cstr name) (cstr payload) (cstr reason)))"

definition comm_is_timeout :: "hal_t \<Rightarrow> comm_instance_t \<Rightarrow> bool" where
  "comm_is_timeout h instance =
     (if state instance \<noteq> COMM_STATE_WAIT_ACK then False
      else (let current_time = HAL_GetTick h;
                elapsed = current_time - last_send_time instance
            in elapsed \<ge> timeout_ms instance))"

definition comm_send_raw :: "hal_t \<Rightarrow> comm_instance_t \<Rightarrow> string \<Rightarrow> nat \<Rightarrow> hal_t \<times> comm_instance_t \<times> bool" where
  "comm_send_raw h instance buf len =
     (if len = 0 then (h, instance, False)
      else (let (h1, ok) = HAL_UART_Transmit h (huart instance) (take len buf)
            in if ok then (h1, instance\<lparr>last_send_time := HAL_GetTick h1\<rparr>, True)
               else (h1, instance, False)))"

text \<open>The literal passed as the reason on retry exhaustion, in the UTF-8 of the source file.\<close>

definition timeout_retry_failed :: string where
  "timeout_retry_failed =
     [CHR 0xE8, CHR 0xB6, CHR 0x85, CHR 0xE6, CHR 0x97, CHR 0xB6, CHR 0xE9, CHR 0x87, CHR 0x8D,
      CHR 0xE8, CHR 0xAF, CHR 0x95, CHR 0xE5, CHR 0xA4, CHR 0xB1, CHR 0xE8, CHR 0xB4, CHR 0xA5]"

definition comm_handle_timeout :: "hal_t \<Rightarrow> comm_instance_t \<Rightarrow> hal_t \<times> comm_instance_t" where
  "comm_handle_timeout h instance =
     (if retry_count instance < max_retry instance then
        (let i1 = instance\<lparr>retry_count := retry_count instance + 1\<rparr>;
             (h1, ok) = HAL_UART_Transmit_IT h (huart i1) (take (tx_length i1) (tx_buffer i1))
         in if ok then
              (let (h2, i2) = comm_set_state h1 i1 COMM_STATE_WAIT_ACK
               in (h2, i2\<lparr>last_send_time := HAL_GetTick h2\<rparr>))
            else
              (let (h2, i2, sent) = comm_send_raw h1 i1 (tx_buffer i1) (tx_length i1)
               in if sent then comm_set_state h2 i2 COMM_STATE_WAIT_ACK else (h2, i2)))
      else
        (let h1 = emit h (Error_Output_Comm_Failed (huart instance) (cstr (current_cmd instance))
                            (cstr (current_data instance)) (max_retry instance));
             h2 = comm_call_fail_callback h1 instance (current_cmd instance)
                    (current_data instance) timeout_retry_failed;
             (h3, i3) = comm_set_state h2 instance COMM_STATE_IDLE
         in (h3, i3\<lparr>retry_count := 0\<rparr>)))"

definition comm_is_frame_timeout :: "hal_t \<Rightarrow> comm_instance_t \<Rightarrow> bool" where
  "comm_is_frame_timeout h instance =
     (if parse_state instance = FRAME_STATE_IDLE then False
      else HAL_GetTick h \<ge> frame_timeout instance)"

definition comm_handle_frame_timeout :: "comm_instance_t \<Rightarrow> comm_instance_t" where
  "comm_handle_frame_timeout instance =
     instance\<lparr>parse_state := FRAME_STATE_IDLE, rx_index := 0, new_frame_available := False\<rparr>"

fun find_instance_from :: "comm_instance_t list \<Rightarrow> nat \<Rightarrow> uart_ptr \<Rightarrow> nat option" where
  "find_instance_from [] i u = None"
| "find_instance_from (x # xs) i u =
     (if huart x = u then Some i else find_instance_from xs (Suc i) u)"

definition comm_find_instance :: "comm_manager_t \<Rightarrow> uart_ptr \<Rightarrow> nat option" where
  "comm_find_instance mgr u =
     (if u = None then None
      else find_instance_from (take (instance_count mgr) (instances mgr)) 0 u)"


section \<open>Frame codec (comm\_protocol.c)\<close>

text \<open>
  \<open>comm_build_frame(instance, cmd, data, frame_buffer, frame_length)\<close>. The result is
  the instance, the frame buffer, and the length written to \<open>*frame_length\<close>
  (\<open>None\<close> when the function returns false). The pointers are taken to be valid.
\<close>

definition comm_build_frame ::
  "comm_instance_t \<Rightarrow> string \<Rightarrow> string \<Rightarrow> string \<Rightarrow> comm_instance_t \<times> string \<times> nat option" where
  "comm_build_frame instance name payload frame_buffer =
     (if strlen name > COMM_MAX_CMD_LENGTH \<or> strlen payload > COMM_MAX_DATA_LENGTH
      then (instance, frame_buffer, None)
      else
        (let (i1, seq) =
               (if retry_count instance > 0 then (instance, current_sequence instance)
                else (let (i0, s) = comm_get_next_tx_sequence instance
                      in (i0\<lparr>current_sequence := s\<rparr>, s)));
             frame_content = [COMM_FRAME_START] @ cstr name @ [COMM_CMD_DATA_SEPARATOR]
                               @ cstr payload @ [COMM_FIELD_SEPARATOR] @ fmt_02X seq;
             content_len = length frame_content
         in if content_len \<ge> COMM_TX_BUFFER_SIZE then (i1, frame_buffer, None)
            else
              (let crc_val = comm_crc8_calculate (Some (map of_char (tl frame_content)))
                               (of_nat (content_len - 1));
                   total = cstr frame_content @ [COMM_FIELD_SEPARATOR] @ fmt_02X crc_val
                             @ [COMM_FRAME_END];
                   total_len = length total;
                   buf = snprintf_store COMM_TX_BUFFER_SIZE total frame_buffer
               in if total_len \<ge> COMM_TX_BUFFER_SIZE then (i1, buf, None)
                  else (i1\<lparr>expected_ack_seq := seq\<rparr>, buf, Some total_len))))"

text \<open>
  The text \<open>"%s%c%s%c%02X"\<close> the parser and the frame handler rebuild from a frame for
  the CRC check. With the 17 and 65 element arrays of a frame it has at most 84
  characters and fits the 256 byte buffer it is formatted into.
\<close>

definition frame_for_crc :: "comm_frame_t \<Rightarrow> string" where
  "frame_for_crc f = cstr (cmd f) @ [COMM_CMD_DATA_SEPARATOR] @ cstr (data f)
                       @ [COMM_FIELD_SEPARATOR] @ fmt_02X (sequence f)"

definition comm_process_byte_in_interrupt :: "hal_t \<Rightarrow> comm_instance_t \<Rightarrow> char \<Rightarrow> comm_instance_t" where
  "comm_process_byte_in_interrupt h instance byte =
     (if new_frame_available instance then instance
      else
        (case parse_state instance of
           FRAME_STATE_IDLE \<Rightarrow>
             (if byte = COMM_FRAME_START then
                instance\<lparr>parse_state := FRAME_STATE_CMD, rx_index := 0,
                         frame_timeout := HAL_GetTick h + COMM_FRAME_TIMEOUT_MS,
                         pending_frame := zero_frame\<rparr>
              else instance)
         | FRAME_STATE_CMD \<Rightarrow>
             (if byte = COMM_CMD_DATA_SEPARATOR then
                instance\<lparr>pending_frame := (pending_frame instance)
                             \<lparr>cmd := (cmd (pending_frame instance))[rx_index instance := NUL]\<rparr>,
                         parse_state := FRAME_STATE_DATA, rx_index := 0\<rparr>
              else if rx_index instance < COMM_MAX_CMD_LENGTH then
                instance\<lparr>pending_frame := (pending_frame instance)
                             \<lparr>cmd := (cmd (pending_frame instance))[rx_index instance := byte]\<rparr>,
                         rx_index := rx_index instance + 1\<rparr>
              else instance\<lparr>parse_state := FRAME_STATE_IDLE\<rparr>)
         | FRAME_STATE_DATA \<Rightarrow>
             (if byte = COMM_FIELD_SEPARATOR then
                instance\<lparr>pending_frame := (pending_frame instance)
                             \<lparr>data := (data (pending_frame instance))[rx_index instance := NUL]\<rparr>,
                         parse_state := FRAME_STATE_SEQ, rx_index := 0\<rparr>
              else if rx_index instance < COMM_MAX_DATA_LENGTH then
                instance\<lparr>pending_frame := (pending_frame instance)
                             \<lparr>data := (data (pending_frame instance))[rx_index instance := byte]\<rparr>,
                         rx_index := rx_index instance + 1\<rparr>
              else instance\<lparr>parse_state := FRAME_STATE_IDLE\<rparr>)
         | FRAME_STATE_SEQ \<Rightarrow>
             (if byte = COMM_FIELD_SEPARATOR then
                (let rxb = (rx_buffer instance)[rx_index instance := NUL]
                 in instance\<lparr>rx_buffer := rxb,
                             pending_frame := (pending_frame instance)
                               \<lparr>sequence := of_int (strtol16 rxb)\<rparr>,
                             parse_state := FRAME_STATE_CRC, rx_index := 0\<rparr>)
              else if rx_index instance < 2 then
                instance\<lparr>rx_buffer := (rx_buffer instance)[rx_index instance := byte],
                         rx_index := rx_index instance + 1\<rparr>
              else instance\<lparr>parse_state := FRAME_STATE_IDLE\<rparr>)
         | FRAME_STATE_CRC \<Rightarrow>
             (if byte = COMM_FRAME_END then
                (let rxb = (rx_buffer instance)[rx_index instance := NUL];
                     pf = (pending_frame instance)\<lparr>crc := of_int (strtol16 rxb)\<rparr>;
                     text = frame_for_crc pf;
                     crc_len = length text;
                     i1 = instance\<lparr>rx_buffer := rxb, pending_frame := pf\<rparr>;
                     i2 = (if crc_len > 0
                              \<and> comm_crc8_verify (Some (map of_char text)) (of_nat crc_len) (crc pf)
                           then i1\<lparr>pending_frame := pf\<lparr>is_valid := True\<rparr>,
                                   new_frame_available := True\<rparr>
                           else i1\<lparr>pending_frame := pf\<lparr>is_valid := False\<rparr>\<rparr>)
                 in i2\<lparr>parse_state := FRAME_STATE_IDLE, rx_index := 0\<rparr>)
              else if rx_index instance < 2 then
                instance\<lparr>rx_buffer := (rx_buffer instance)[rx_index instance := byte],
                         rx_index := rx_index instance + 1\<rparr>
              else instance\<lparr>parse_state := FRAME_STATE_IDLE\<rparr>)
         | _ \<Rightarrow> instance\<lparr>parse_state := FRAME_STATE_IDLE\<rparr>))"

text \<open>Feeding a received byte string, one interrupt per byte.\<close>

definition process_bytes :: "hal_t \<Rightarrow> comm_instance_t \<Rightarrow> string \<Rightarrow> comm_instance_t" where
  "process_bytes h instance bytes = foldl (comm_process_byte_in_interrupt h) instance bytes"

text \<open>
  The frame \<open>{ACK:SS#00#CC}\<close> or \<open>{NAK:SS#00#CC}\<close> that \<open>comm_send_ack\<close> and
  \<open>comm_send_nak\<close> format; both texts are far shorter than the buffers.
\<close>

definition control_frame :: "string \<Rightarrow> u8 \<Rightarrow> string" where
  "control_frame name seq =
     (let frame_content = name @ [COMM_CMD_DATA_SEPARATOR] @ fmt_02X seq
                            @ [COMM_FIELD_SEPARATOR] @ ''00'';
          crc_val = comm_crc8_calculate (Some (map of_char frame_content))
                      (of_nat (length frame_content))
      in [COMM_FRAME_START] @ frame_content @ [COMM_FIELD_SEPARATOR] @ fmt_02X crc_val
           @ [COMM_FRAME_END])"

definition comm_send_ack :: "hal_t \<Rightarrow> comm_instance_t \<Rightarrow> u8 \<Rightarrow> hal_t \<times> bool" where
  "comm_send_ack h instance ack_seq =
     HAL_UART_Transmit h (huart instance) (control_frame COMM_CMD_ACK ack_seq)"

definition comm_send_nak :: "hal_t \<Rightarrow> comm_instance_t \<Rightarrow> u8 \<Rightarrow> string \<Rightarrow> hal_t \<times> comm_instance_t \<times> bool" where
  "comm_send_nak h instance nak_seq reason =
     (let nak_frame = control_frame COMM_CMD_NAK nak_seq
      in comm_send_raw h instance nak_frame (length nak_frame))"

text \<open>
  \<open>comm_handle_complete_frame(instance, frame)\<close>. The frame is the one the caller read
  from the instance before the call; the function does not write to it.
\<close>

definition comm_handle_complete_frame ::
  "hal_t \<Rightarrow> comm_instance_t \<Rightarrow> comm_frame_t \<Rightarrow> hal_t \<times> comm_instance_t" where
  "comm_handle_complete_frame h instance frame =
     (if \<not> is_valid frame then (h, instance)
      else if cstr (cmd frame) = COMM_CMD_ACK then
        (let ack_seq = (of_int (strtol16 (data frame)) :: u8)
         in if ack_seq = expected_ack_seq instance \<and> state instance = COMM_STATE_WAIT_ACK then
              (let (h1, i1) = comm_set_state h instance COMM_STATE_IDLE
               in (h1, i1\<lparr>retry_count := 0\<rparr>))
            else (h, instance))
      else if cstr (cmd frame) = COMM_CMD_NAK then
        (let nak_seq = (of_int (strtol16 (data frame)) :: u8)
         in if nak_seq = expected_ack_seq instance \<and> state instance = COMM_STATE_WAIT_ACK then
              comm_handle_timeout h instance
            else (h, instance))
      else if comm_is_valid_rx_sequence instance (sequence frame) then
        (if state instance = COMM_STATE_WAIT_ACK \<and> sequence frame = expected_ack_seq instance
         then (h, instance)
         else
           (let i1 = comm_update_rx_sequence instance (sequence frame);
                (h1, acked) = comm_send_ack h i1 (sequence frame);
                (h2, called) = comm_call_callback h1 i1 (cmd frame) (data frame)
            in (h2, i1)))
      else
        (let diff = rx_sequence_diff instance (sequence frame)
         in if diff = 0 then
              (let (h1, acked) = comm_send_ack h instance (sequence frame) in (h1, instance))
            else
              (let (h1, i1, sent) = comm_send_nak h instance (sequence frame) ''SEQ_ERROR''
               in (h1, i1))))"

section \<open>Core API (comm.c)\<close>

text \<open>
  \<open>comm_send_command\<close> in two parts: \<open>send_on_instance\<close> is the body after the
  instance has been found, \<open>comm_send_command\<close> looks the instance up in the manager
  and stores it back. \<open>None\<close> for \<open>cmd\<close> or \<open>data\<close> is a \<open>NULL\<close> argument. The
  frame buffer handed to \<open>comm_build_frame\<close> is the instance's own \<open>tx_buffer\<close>.
\<close>

definition send_on_instance ::
  "hal_t \<Rightarrow> comm_instance_t \<Rightarrow> string option \<Rightarrow> string option \<Rightarrow> hal_t \<times> comm_instance_t \<times> bool" where
  "send_on_instance h instance cmd_arg data_arg =
     (if \<not> comm_instance_is_ready instance then (h, instance, False)
      else
        (case (cmd_arg, data_arg) of
           (Some name, Some payload) \<Rightarrow>
             (if strlen name \<ge> COMM_MAX_CMD_LENGTH \<or> strlen payload \<ge> COMM_MAX_DATA_LENGTH
              then (h, instance, False)
              else
                (let i1 = instance
                       \<lparr>current_cmd := (strncpy (current_cmd instance) name (COMM_MAX_CMD_LENGTH - 1))
                                         [COMM_MAX_CMD_LENGTH - 1 := NUL],
                        current_data := (strncpy (current_data instance) payload (COMM_MAX_DATA_LENGTH - 1))
                                         [COMM_MAX_DATA_LENGTH - 1 := NUL],
                        retry_count := 0\<rparr>;
                     (i2, buf, built) = comm_build_frame i1 name payload (tx_buffer i1);
                     i3 = i2\<lparr>tx_buffer := buf\<rparr>
                 in case built of
                      None \<Rightarrow> (h, i3, False)
                    | Some frame_len \<Rightarrow>
                        (let i4 = i3\<lparr>tx_length := frame_len\<rparr>;
                             i5 = (if strlen (cmd (pending_frame i4)) > 0
                                   then i4\<lparr>pending_frame := zero_frame\<rparr> else i4);
                             send_copy = take frame_len (tx_buffer i5);
                             (h1, ok) = HAL_UART_Transmit h (huart i5) send_copy
                         in if ok then
                              (let (h2, i6) = comm_set_state h1 i5 COMM_STATE_WAIT_ACK
                               in (h2, i6\<lparr>last_send_time := HAL_GetTick h2\<rparr>, True))
                            else (h1, i5, False))))
         | _ \<Rightarrow> (h, instance, False)))"

definition comm_send_command ::
  "hal_t \<Rightarrow> comm_manager_t \<Rightarrow> uart_ptr \<Rightarrow> string option \<Rightarrow> string option
     \<Rightarrow> hal_t \<times> comm_manager_t \<times> bool" where
  "comm_send_command h mgr u cmd_arg data_arg =
     (case comm_find_instance mgr u of
        None \<Rightarrow> (emit h (Error_Output_Not_Found u), mgr, False)
      | Some k \<Rightarrow>
          (let (h1, i1, ok) = send_on_instance h (instances mgr ! k) cmd_arg data_arg
           in (h1, mgr\<lparr>instances := (instances mgr)[k := i1]\<rparr>, ok)))"

text \<open>
  \<open>comm_tick\<close>: \<open>tick_instance\<close> is the body of its loop for one instance,
  \<open>tick_from\<close> the loop over the instances in use.
\<close>

definition tick_instance :: "hal_t \<Rightarrow> comm_instance_t \<Rightarrow> hal_t \<times> comm_instance_t" where
  "tick_instance h instance =
     (let (h1, i1) = (if comm_is_timeout h instance then comm_handle_timeout h instance
                      else (h, instance));
          i2 = (if comm_is_frame_timeout h1 i1 then comm_handle_frame_timeout i1 else i1)
      in if new_frame_available i2 then
           (let (h3, i3) = comm_handle_complete_frame h1 i2 (pending_frame i2)
            in (h3, i3\<lparr>new_frame_available := False, pending_frame := zero_frame\<rparr>))
         else (h1, i2))"

fun tick_from :: "hal_t \<Rightarrow> comm_instance_t list \<Rightarrow> hal_t \<times> comm_instance_t list" where
  "tick_from h [] = (h, [])"
| "tick_from h (x # xs) =
     (let (h1, x1) = tick_instance h x;
          (h2, xs1) = tick_from h1 xs
      in (h2, x1 # xs1))"

definition comm_tick :: "hal_t \<Rightarrow> comm_manager_t \<Rightarrow> hal_t \<times> comm_manager_t" where
  "comm_tick h mgr =
     (let n = instance_count mgr;
          (h1, ticked) = tick_from h (take n (instances mgr))
      in (h1, mgr\<lparr>instances := ticked @ drop n (instances mgr)\<rparr>))"

text \<open>The invocations of the failure callback recorded in a trace, oldest first.\<close>

fun is_fail_callback :: "event \<Rightarrow> bool" where
  "is_fail_callback (Fail_Callback f name payload reason) = True"
| "is_fail_callback e = False"

definition fail_callbacks :: "hal_t \<Rightarrow> event list" where
  "fail_callbacks h = filter is_fail_callback (trace h)"

text \<open>The frames handed to the HAL recorded in a trace, oldest first.\<close>

fun is_transmission :: "event \<Rightarrow> bool" where
  "is_transmission (UART_Transmit u bytes) = True"
| "is_transmission (UART_Transmit_IT u bytes) = True"
| "is_transmission e = False"

definition transmissions :: "hal_t \<Rightarrow> event list" where
  "transmissions h = filter is_transmission (trace h)"



text \<open>
  A channel as \<open>comm_add_uart\<close> sets it up (timeout 1000 ms, 3 retries) with a failure
  callback registered, and the state after it has sent \<open>PING\<close> with data \<open>TEST\<close> at
  tick 0 over a transport that accepts every transmission.
\<close>

definition channel_1 :: comm_instance_t where
  "channel_1 = initialized_instance (Some 1) 1000 3\<lparr>fail_callback := Some 7\<rparr>"


text \<open>
  A second channel with a handler for \<open>PING\<close> in the first slot of its table, as
  \<open>comm_register_callback\<close> stores it (the name and the function pointer); the state
  the byte interrupt leaves this channel in after the frame \<open>{PING:TEST#04#5A}\<close> has
  arrived at tick 0; and a manager holding an idle channel and this one.
\<close>

definition channel_2 :: comm_instance_t where
  "channel_2 = initialized_instance (Some 2) 1000 3
     \<lparr>handlers := (replicate COMM_MAX_CALLBACKS zero_handler)
        [0 := zero_handler\<lparr>handler_cmd := ''PING'' @ zeroed 13, callback := Some 9\<rparr>]\<rparr>"

definition channel_2_received :: comm_instance_t where
  "channel_2_received = process_bytes (hal_all_ok 0) channel_2 ''{PING:TEST#04#5A}''"

definition two_channels :: comm_manager_t where
  "two_channels = \<lparr>instances = [initialized_instance (Some 1) 1000 3, channel_2_received],
                    instance_count = 2\<rparr>"

section \<open>Properties of the CRC engine\<close>

lemma crc8_shift_8:
  "(crc8_shift ^^ 8) x =
     crc8_shift (crc8_shift (crc8_shift (crc8_shift (crc8_shift (crc8_shift (crc8_shift (crc8_shift x)))))))"
  by (simp add: eval_nat_numeral)

lemma all_bytes_upt:
  "map of_nat [0..<256] =
    ([
     0x00, 0x01, 0x02, 0x03, 0x04, 0x05, 0x06, 0x07, 0x08, 0x09, 0x0A, 0x0B, 0x0C, 0x0D, 0x0E, 0x0F,
     0x10, 0x11, 0x12, 0x13, 0x14, 0x15, 0x16, 0x17, 0x18, 0x19, 0x1A, 0x1B, 0x1C, 0x1D, 0x1E, 0x1F,
     0x20, 0x21, 0x22, 0x23, 0x24, 0x25, 0x26, 0x27, 0x28, 0x29, 0x2A, 0x2B, 0x2C, 0x2D, 0x2E, 0x2F,
     0x30, 0x31, 0x32, 0x33, 0x34, 0x35, 0x36, 0x37, 0x38, 0x39, 0x3A, 0x3B, 0x3C, 0x3D, 0x3E, 0x3F,
     0x40, 0x41, 0x42, 0x43, 0x44, 0x45, 0x46, 0x47, 0x48, 0x49, 0x4A, 0x4B, 0x4C, 0x4D, 0x4E, 0x4F,
     0x50, 0x51, 0x52, 0x53, 0x54, 0x55, 0x56, 0x57, 0x58, 0x59, 0x5A, 0x5B, 0x5C, 0x5D, 0x5E, 0x5F,
     0x60, 0x61, 0x62, 0x63, 0x64, 0x65, 0x66, 0x67, 0x68, 0x69, 0x6A, 0x6B, 0x6C, 0x6D, 0x6E, 0x6F,
     0x70, 0x71, 0x72, 0x73, 0x74, 0x75, 0x76, 0x77, 0x78, 0x79, 0x7A, 0x7B, 0x7C, 0x7D, 0x7E, 0x7F,
     0x80, 0x81, 0x82, 0x83, 0x84, 0x85, 0x86, 0x87, 0x88, 0x89, 0x8A, 0x8B, 0x8C, 0x8D, 0x8E, 0x8F,
     0x90, 0x91, 0x92, 0x93, 0x94, 0x95, 0x96, 0x97, 0x98, 0x99, 0x9A, 0x9B, 0x9C, 0x9D, 0x9E, 0x9F,
     0xA0, 0xA1, 0xA2, 0xA3, 0xA4, 0xA5, 0xA6, 0xA7, 0xA8, 0xA9, 0xAA, 0xAB, 0xAC, 0xAD, 0xAE, 0xAF,
     0xB0, 0xB1, 0xB2, 0xB3, 0xB4, 0xB5, 0xB6, 0xB7, 0xB8, 0xB9, 0xBA, 0xBB, 0xBC, 0xBD, 0xBE, 0xBF,
     0xC0, 0xC1, 0xC2, 0xC3, 0xC4, 0xC5, 0xC6, 0xC7, 0xC8, 0xC9, 0xCA, 0xCB, 0xCC, 0xCD, 0xCE, 0xCF,
     0xD0, 0xD1, 0xD2, 0xD3, 0xD4, 0xD5, 0xD6, 0xD7, 0xD8, 0xD9, 0xDA, 0xDB, 0xDC, 0xDD, 0xDE, 0xDF,
     0xE0, 0xE1, 0xE2, 0xE3, 0xE4, 0xE5, 0xE6, 0xE7, 0xE8, 0xE9, 0xEA, 0xEB, 0xEC, 0xED, 0xEE, 0xEF,
     0xF0, 0xF1, 0xF2, 0xF3, 0xF4, 0xF5, 0xF6, 0xF7, 0xF8, 0xF9, 0xFA, 0xFB, 0xFC, 0xFD, 0xFE, 0xFF] :: u8 list)"
  by (simp add: upt_rec)

lemma crc8_table_by_shifts:
  "map (crc8_shift ^^ 8)
    [
     0x00, 0x01, 0x02, 0x03, 0x04, 0x05, 0x06, 0x07, 0x08, 0x09, 0x0A, 0x0B, 0x0C, 0x0D, 0x0E, 0x0F,
     0x10, 0x11, 0x12, 0x13, 0x14, 0x15, 0x16, 0x17, 0x18, 0x19, 0x1A, 0x1B, 0x1C, 0x1D, 0x1E, 0x1F,
     0x20, 0x21, 0x22, 0x23, 0x24, 0x25, 0x26, 0x27, 0x28, 0x29, 0x2A, 0x2B, 0x2C, 0x2D, 0x2E, 0x2F,
     0x30, 0x31, 0x32, 0x33, 0x34, 0x35, 0x36, 0x37, 0x38, 0x39, 0x3A, 0x3B, 0x3C, 0x3D, 0x3E, 0x3F,
     0x40, 0x41, 0x42, 0x43, 0x44, 0x45, 0x46, 0x47, 0x48, 0x49, 0x4A, 0x4B, 0x4C, 0x4D, 0x4E, 0x4F,
     0x50, 0x51, 0x52, 0x53, 0x54, 0x55, 0x56, 0x57, 0x58, 0x59, 0x5A, 0x5B, 0x5C, 0x5D, 0x5E, 0x5F,
     0x60, 0x61, 0x62, 0x63, 0x64, 0x65, 0x66, 0x67, 0x68, 0x69, 0x6A, 0x6B, 0x6C, 0x6D, 0x6E, 0x6F,
     0x70, 0x71, 0x72, 0x73, 0x74, 0x75, 0x76, 0x77, 0x78, 0x79, 0x7A, 0x7B, 0x7C, 0x7D, 0x7E, 0x7F,
     0x80, 0x81, 0x82, 0x83, 0x84, 0x85, 0x86, 0x87, 0x88, 0x89, 0x8A, 0x8B, 0x8C, 0x8D, 0x8E, 0x8F,
     0x90, 0x91, 0x92, 0x93, 0x94, 0x95, 0x96, 0x97, 0x98, 0x99, 0x9A, 0x9B, 0x9C, 0x9D, 0x9E, 0x9F,
     0xA0, 0xA1, 0xA2, 0xA3, 0xA4, 0xA5, 0xA6, 0xA7, 0xA8, 0xA9, 0xAA, 0xAB, 0xAC, 0xAD, 0xAE, 0xAF,
     0xB0, 0xB1, 0xB2, 0xB3, 0xB4, 0xB5, 0xB6, 0xB7, 0xB8, 0xB9, 0xBA, 0xBB, 0xBC, 0xBD, 0xBE, 0xBF,
     0xC0, 0xC1, 0xC2, 0xC3, 0xC4, 0xC5, 0xC6, 0xC7, 0xC8, 0xC9, 0xCA, 0xCB, 0xCC, 0xCD, 0xCE, 0xCF,
     0xD0, 0xD1, 0xD2, 0xD3, 0xD4, 0xD5, 0xD6, 0xD7, 0xD8, 0xD9, 0xDA, 0xDB, 0xDC, 0xDD, 0xDE, 0xDF,
     0xE0, 0xE1, 0xE2, 0xE3, 0xE4, 0xE5, 0xE6, 0xE7, 0xE8, 0xE9, 0xEA, 0xEB, 0xEC, 0xED, 0xEE, 0xEF,
     0xF0, 0xF1, 0xF2, 0xF3, 0xF4, 0xF5, 0xF6, 0xF7, 0xF8, 0xF9, 0xFA, 0xFB, 0xFC, 0xFD, 0xFE, 0xFF] = crc8_table"
  by (simp add: crc8_shift_8 crc8_shift_def crc8_table_def)

lemma crc8_table_nth: "crc8_table ! unat b = (crc8_shift ^^ 8) b"
proof -
  have lt: "unat b < 256"
    using unsigned_less [of b, where ?'a = nat] by simp
  have "crc8_table = map (crc8_shift ^^ 8) (map of_nat [0..<256])"
    by (simp only: all_bytes_upt crc8_table_by_shifts)
  then have "crc8_table ! unat b = map (crc8_shift ^^ 8) (map of_nat [0..<256]) ! unat b"
    by (rule arg_cong)
  also have "\<dots> = (crc8_shift ^^ 8) (map of_nat [0..<256] ! unat b)"
    using lt by (intro nth_map) simp
  also have "map of_nat [0..<256] ! unat b = (of_nat ([0..<256] ! unat b) :: u8)"
    using lt by (intro nth_map) simp
  also have "[0..<256] ! unat b = unat b"
    using lt by (simp only: nth_upt add_0)
  finally show ?thesis
    by simp
qed

lemma crc8_loops_agree: "crc8_table_loop c bs = crc8_bit_loop c bs"
  by (induction bs arbitrary: c) (simp_all add: crc8_table_nth)

lemma crc8_shift_bit7:
  "crc8_shift x = (if bit x 7 then push_bit 1 x XOR 0x07 else push_bit 1 x)"
proof -
  have "(x AND 0x80 \<noteq> 0) = bit x 7"
    using and_exp_eq_0_iff_not_bit [of x 7] by simp
  then show ?thesis
    by (simp add: crc8_shift_def)
qed

text \<open>
  One round of the direct loop on a register that already holds the rest of the byte,
  shifted up by the rounds done so far, is one step of the reference on the next bit.
\<close>

lemma crc8_shift_step:
  assumes "j < 8"
  shows "crc8_shift (s XOR push_bit j b)
           = crc8_spec_bit s (bit b (7 - j)) XOR push_bit (Suc j) b"
proof -
  have top: "bit (s XOR push_bit j b) 7 = (bit s 7 \<noteq> bit b (7 - j))"
    using assms by (simp add: bit_xor_iff bit_push_bit_iff)
  have shifted: "push_bit 1 (s XOR push_bit j b) = push_bit 1 s XOR push_bit (Suc j) b"
    by (simp add: push_bit_xor push_bit_push_bit)
  show ?thesis
    unfolding crc8_shift_bit7 crc8_spec_bit_def top shifted
    by (simp add: xor.assoc xor.commute xor.left_commute)
qed

lemma crc8_byte_refines:
  "(crc8_shift ^^ 8) (c XOR b) = foldl crc8_spec_bit c (msb_first b)"
proof -
  have gone: "push_bit 8 b = (0 :: u8)"
    by (rule bit_word_eqI) (simp add: bit_push_bit_iff)
  have "(crc8_shift ^^ 8) (c XOR push_bit 0 b)
          = foldl crc8_spec_bit c (msb_first b) XOR push_bit 8 b"
    unfolding crc8_shift_8 msb_first_def
    using crc8_shift_step [of 0] crc8_shift_step [of 1] crc8_shift_step [of 2]
      crc8_shift_step [of 3] crc8_shift_step [of 4] crc8_shift_step [of 5]
      crc8_shift_step [of 6] crc8_shift_step [of 7]
    by (simp add: eval_nat_numeral)
  then show ?thesis
    by (simp add: gone)
qed

lemma crc8_bit_loop_spec:
  "crc8_bit_loop c bs = foldl crc8_spec_bit c (concat (map msb_first bs))"
  by (induction bs arbitrary: c) (simp_all add: crc8_byte_refines)

lemma crc8_of_letter_A: "comm_crc8_calculate (Some [0x41]) 1 = 0xC0"
  by (simp add: comm_crc8_calculate_def crc8_loops_agree crc8_shift_8 crc8_shift_def
      del: crc8_table_loop.simps)

text \<open>
  C9. For every byte sequence and length the table-driven and the bit-by-bit variant of
  \<open>comm_crc8_calculate\<close> return the same value, which is the CRC-8 of the bytes read
  with polynomial 0x07, initial value 0, no reflection and no final XOR; a \<open>NULL\<close>
  pointer or length 0 gives 0 in both.
\<close>

theorem comm_crc8_calculate_variants_agree:
  "comm_crc8_calculate (Some bs) len = comm_crc8_calculate_direct (Some bs) len
   \<and> comm_crc8_calculate (Some bs) len = crc8_spec (take (unat len) bs)
   \<and> comm_crc8_calculate None len = 0
   \<and> comm_crc8_calculate_direct None len = 0
   \<and> comm_crc8_calculate (Some bs) 0 = 0
   \<and> comm_crc8_calculate_direct (Some bs) 0 = 0"
  by (simp add: comm_crc8_calculate_def comm_crc8_calculate_direct_def crc8_spec_def
      crc8_loops_agree crc8_bit_loop_spec)

section \<open>Properties of the sequence manager\<close>

text \<open>
  C5. \<open>comm_is_valid_rx_sequence\<close> returns true exactly when the difference between the
  received sequence and the stored baseline, normalised into the range above -128 up to
  128 by adding or subtracting 256, lies between 1 and 10. With baseline 250 an incoming
  1 has normalised difference 7 and is accepted; with baseline 5 an incoming 250 is
  rejected.
\<close>

theorem comm_is_valid_rx_sequence_window:
  "comm_is_valid_rx_sequence instance rx_seq
     = (1 \<le> spec_normalized_diff (uint rx_seq - uint (rx_sequence instance))
        \<and> spec_normalized_diff (uint rx_seq - uint (rx_sequence instance)) \<le> 10)
   \<and> - 128 < spec_normalized_diff (uint rx_seq - uint (rx_sequence instance))
   \<and> spec_normalized_diff (uint rx_seq - uint (rx_sequence instance)) \<le> 128
   \<and> spec_normalized_diff (uint (1 :: u8) - uint (250 :: u8)) = 7
   \<and> comm_is_valid_rx_sequence (instance\<lparr>rx_sequence := 250\<rparr>) 1
   \<and> \<not> comm_is_valid_rx_sequence (instance\<lparr>rx_sequence := 5\<rparr>) 250"
proof -
  define d where "d = uint rx_seq - uint (rx_sequence instance)"
  have "uint rx_seq < 256" "uint (rx_sequence instance) < 256"
    using uint_bounded [of rx_seq] uint_bounded [of "rx_sequence instance"] by simp_all
  moreover have "0 \<le> uint rx_seq" "0 \<le> uint (rx_sequence instance)"
    by simp_all
  ultimately have range: "- 255 \<le> d" "d \<le> 255"
    unfolding d_def by linarith+
  have code: "comm_is_valid_rx_sequence instance rx_seq
                = (1 \<le> (if d < - 128 then d + 256 else if d > 128 then d - 256 else d)
                   \<and> (if d < - 128 then d + 256 else if d > 128 then d - 256 else d) \<le> 10)"
    by (simp add: comm_is_valid_rx_sequence_def rx_sequence_diff_def Let_def d_def)
  have general: "comm_is_valid_rx_sequence instance rx_seq
     = (1 \<le> spec_normalized_diff d \<and> spec_normalized_diff d \<le> 10)
   \<and> - 128 < spec_normalized_diff d \<and> spec_normalized_diff d \<le> 128"
    unfolding code using range by (auto simp add: spec_normalized_diff_def)
  have examples: "spec_normalized_diff (uint (1 :: u8) - uint (250 :: u8)) = 7
   \<and> comm_is_valid_rx_sequence (instance\<lparr>rx_sequence := 250\<rparr>) 1
   \<and> \<not> comm_is_valid_rx_sequence (instance\<lparr>rx_sequence := 5\<rparr>) 250"
    by (simp add: comm_is_valid_rx_sequence_def rx_sequence_diff_def spec_normalized_diff_def
        Let_def)
  show ?thesis
    using general examples unfolding d_def by blast
qed

section \<open>The single-slot mailbox\<close>

lemma tick_from_clears:
  "tick_from h xs = (h', ys) \<Longrightarrow> y \<in> set ys \<Longrightarrow> \<not> new_frame_available y"
proof (induction xs arbitrary: h h' ys)
  case Nil
  then show ?case by simp
next
  case (Cons x xs)
  obtain h1 x1 where t1: "tick_instance h x = (h1, x1)" by (cases "tick_instance h x")
  obtain h2 xs1 where t2: "tick_from h1 xs = (h2, xs1)" by (cases "tick_from h1 xs")
  have x1: "\<not> new_frame_available x1"
    using t1
    by (auto simp add: tick_instance_def Let_def comm_handle_frame_timeout_def
        split: prod.splits if_splits)
  from Cons.prems t1 t2 have "ys = x1 # xs1" by simp
  with Cons.prems(2) x1 Cons.IH [OF t2] show ?case by auto
qed

lemma tick_instance_clears: "\<not> new_frame_available (snd (tick_instance h instance))"
  by (auto simp add: tick_instance_def Let_def comm_handle_frame_timeout_def
        split: prod.splits if_splits)

text \<open>The byte interrupt sets the flag only as it returns the parser to idle.\<close>

lemma flag_set_with_parser_idle:
  assumes "\<not> new_frame_available instance"
    and "new_frame_available (comm_process_byte_in_interrupt h instance byte)"
  shows "parse_state (comm_process_byte_in_interrupt h instance byte) = FRAME_STATE_IDLE"
  using assms
  by (simp add: comm_process_byte_in_interrupt_def Let_def
      split: frame_parse_state_t.splits if_splits)

lemma process_bytes_discards:
  "new_frame_available instance \<Longrightarrow> process_bytes h instance bytes = instance"
  by (induction bytes) (simp_all add: process_bytes_def comm_process_byte_in_interrupt_def)


lemma comm_handle_timeout_parser_fields:
  "new_frame_available (snd (comm_handle_timeout h instance)) = new_frame_available instance"
  "parse_state (snd (comm_handle_timeout h instance)) = parse_state instance"
  "pending_frame (snd (comm_handle_timeout h instance)) = pending_frame instance"
  "rx_sequence (snd (comm_handle_timeout h instance)) = rx_sequence instance"
  by (auto simp add: comm_handle_timeout_def comm_set_state_def comm_send_raw_def Let_def
      HAL_UART_Transmit_IT_def HAL_UART_Transmit_def split: prod.splits option.splits)

lemma tick_from_append:
  "tick_from h (xs @ ys)
     = (fst (tick_from (fst (tick_from h xs)) ys),
        snd (tick_from h xs) @ snd (tick_from (fst (tick_from h xs)) ys))"
  by (induction xs arbitrary: h) (simp_all add: split_beta)

lemma tick_from_length: "length (snd (tick_from h xs)) = length xs"
  by (induction xs arbitrary: h) (simp_all add: split_beta)

lemma tick_from_nth:
  assumes "k < length xs"
  shows "snd (tick_from h xs) ! k = snd (tick_instance (fst (tick_from h (take k xs))) (xs ! k))"
    and "fst (tick_from h (take (Suc k) xs))
           = fst (tick_instance (fst (tick_from h (take k xs))) (xs ! k))"
proof -
  have split: "xs = take k xs @ (xs ! k) # drop (Suc k) xs"
    using assms by (simp add: id_take_nth_drop)
  have len: "length (snd (tick_from h (take k xs))) = k"
    using assms by (simp add: tick_from_length)
  have "snd (tick_from h (take k xs @ (xs ! k) # drop (Suc k) xs)) ! k
          = snd (tick_instance (fst (tick_from h (take k xs))) (xs ! k))"
    by (simp add: tick_from_append split_beta nth_append len)
  then show "snd (tick_from h xs) ! k
               = snd (tick_instance (fst (tick_from h (take k xs))) (xs ! k))"
    using split by simp
  have "take (Suc k) xs = take k xs @ [xs ! k]"
    using assms by (simp add: take_Suc_conv_app_nth)
  then show "fst (tick_from h (take (Suc k) xs))
           = fst (tick_instance (fst (tick_from h (take k xs))) (xs ! k))"
    by (simp add: tick_from_append split_beta)
qed

lemma comm_tick_nth:
  assumes "k < instance_count mgr" and "instance_count mgr \<le> length (instances mgr)"
  shows "instances (snd (comm_tick h mgr)) ! k
           = snd (tick_instance (fst (tick_from h (take k (instances mgr)))) (instances mgr ! k))"
    and "fst (tick_from h (take (Suc k) (instances mgr)))
           = fst (tick_instance (fst (tick_from h (take k (instances mgr)))) (instances mgr ! k))"
proof -
  let ?xs = "take (instance_count mgr) (instances mgr)"
  have k: "k < length ?xs" using assms by simp
  have "instances (snd (comm_tick h mgr)) ! k = snd (tick_from h ?xs) ! k"
    using k by (simp add: comm_tick_def Let_def split_beta nth_append tick_from_length)
  then show "instances (snd (comm_tick h mgr)) ! k
           = snd (tick_instance (fst (tick_from h (take k (instances mgr)))) (instances mgr ! k))"
    using tick_from_nth(1) [OF k, of h] assms(1) by (simp add: min_def)
  show "fst (tick_from h (take (Suc k) (instances mgr)))
           = fst (tick_instance (fst (tick_from h (take k (instances mgr)))) (instances mgr ! k))"
    using tick_from_nth(2) [of k "instances mgr" h] assms by simp
qed

lemma comm_tick_env:
  "fst (comm_tick h mgr) = fst (tick_from h (take (instance_count mgr) (instances mgr)))"
  by (simp add: comm_tick_def Let_def split_beta)

lemma tick_instance_consumes:
  assumes "new_frame_available i" and "parse_state i = FRAME_STATE_IDLE"
  shows "tick_instance h i
         = (let (h1, i1) = (if comm_is_timeout h i then comm_handle_timeout h i else (h, i));
                (h3, i3) = comm_handle_complete_frame h1 i1 (pending_frame i)
            in (h3, i3\<lparr>new_frame_available := False, pending_frame := zero_frame\<rparr>))"
proof -
  obtain h1 i1 where step1:
    "(if comm_is_timeout h i then comm_handle_timeout h i else (h, i)) = (h1, i1)"
    by (cases "if comm_is_timeout h i then comm_handle_timeout h i else (h, i)")
  have "i1 = snd (if comm_is_timeout h i then comm_handle_timeout h i else (h, i))"
    using step1 by simp
  then have kept: "new_frame_available i1" "parse_state i1 = FRAME_STATE_IDLE"
    "pending_frame i1 = pending_frame i"
    using assms by (simp_all add: comm_handle_timeout_parser_fields split: if_splits)
  show ?thesis
    using kept step1
    by (simp add: tick_instance_def comm_is_frame_timeout_def Let_def split: prod.splits)
qed

lemma comm_send_raw_parse_state:
  "parse_state (fst (snd (comm_send_raw h i buf len))) = parse_state i"
  by (simp add: comm_send_raw_def HAL_UART_Transmit_def Let_def split: prod.splits)

lemma handle_complete_frame_parse_state:
  "parse_state (snd (comm_handle_complete_frame h i f)) = parse_state i"
  by (auto simp add: comm_handle_complete_frame_def Let_def comm_set_state_def
      comm_send_nak_def comm_handle_timeout_parser_fields(2) comm_update_rx_sequence_def
      comm_send_raw_parse_state split_beta
      split: if_splits option.splits)

section \<open>Hexadecimal fields\<close>

lemma cstr_terminated: "NUL \<notin> set s \<Longrightarrow> cstr (s @ NUL # rest) = s"
  by (induction s) (auto simp add: cstr_def)

lemma cstr_no_NUL: "NUL \<notin> set s \<Longrightarrow> cstr s = s"
  by (induction s) (auto simp add: cstr_def)

lemma cstr_idem: "cstr (cstr s) = cstr s"
  by (simp add: cstr_def)

lemma NUL_notin_cstr: "NUL \<notin> set (cstr s)"
  by (auto simp add: cstr_def dest: set_takeWhileD)

lemma hex_upper_props:
  assumes "n < 16"
  shows "hex_digit_val (hex_upper n) = Some n"
    and "hex_upper n \<noteq> NUL"
    and "\<not> isspace (hex_upper n)"
    and "hex_upper n \<noteq> CHR ''-''" and "hex_upper n \<noteq> CHR ''+''"
    and "hex_upper n \<noteq> CHR ''x''" and "hex_upper n \<noteq> CHR ''X''"
proof -
  have "list_all (\<lambda>n. hex_digit_val (hex_upper n) = Some n \<and> hex_upper n \<noteq> NUL
          \<and> \<not> isspace (hex_upper n) \<and> hex_upper n \<noteq> CHR ''-'' \<and> hex_upper n \<noteq> CHR ''+''
          \<and> hex_upper n \<noteq> CHR ''x'' \<and> hex_upper n \<noteq> CHR ''X'') [0..<16]"
    by (simp add: upt_rec hex_upper_def hex_digit_val_def NUL_def isspace_def)
  then have "hex_digit_val (hex_upper n) = Some n \<and> hex_upper n \<noteq> NUL
          \<and> \<not> isspace (hex_upper n) \<and> hex_upper n \<noteq> CHR ''-'' \<and> hex_upper n \<noteq> CHR ''+''
          \<and> hex_upper n \<noteq> CHR ''x'' \<and> hex_upper n \<noteq> CHR ''X''"
    using assms unfolding list_all_iff by (metis atLeastLessThan_iff set_upt zero_le)
  then show "hex_digit_val (hex_upper n) = Some n"
    and "hex_upper n \<noteq> NUL"
    and "\<not> isspace (hex_upper n)"
    and "hex_upper n \<noteq> CHR ''-''" and "hex_upper n \<noteq> CHR ''+''"
    and "hex_upper n \<noteq> CHR ''x''" and "hex_upper n \<noteq> CHR ''X''"
    by simp_all
qed

lemma nibbles:
  fixes v :: u8
  shows "unat (drop_bit 4 v) < 16" and "unat (v AND 0x0F) < 16"
    and "unat (drop_bit 4 v) * 16 + unat (v AND 0x0F) = unat v"
proof -
  have lt: "unat v < 256"
    using unsigned_less [of v, where ?'a = nat] by simp
  have hi: "unat (drop_bit 4 v) = unat v div 16"
    by (simp add: unat_drop_bit_eq drop_bit_eq_div del: drop_bit_eq_div [symmetric]) (simp add: unat_div)
  have lo: "unat (v AND 0x0F) = unat v mod 16"
  proof -
    have "v AND 0x0F = take_bit 4 v"
      by (simp add: take_bit_eq_mask mask_eq_exp_minus_1)
    then show ?thesis
      by (simp add: take_bit_eq_mod) (simp add: unat_mod)
  qed
  show "unat (drop_bit 4 v) < 16" using lt hi by simp
  show "unat (v AND 0x0F) < 16" using lo by simp
  show "unat (drop_bit 4 v) * 16 + unat (v AND 0x0F) = unat v"
    using hi lo by simp
qed

lemma NUL_notin_fmt_02X: "NUL \<notin> set (fmt_02X v)"
  using hex_upper_props(2) nibbles(1,2) by (simp add: fmt_02X_def) metis

lemma strtol16_fmt_02X:
  assumes "cstr buf = fmt_02X v"
  shows "(of_int (strtol16 buf) :: u8) = v"
proof -
  let ?h = "unat (drop_bit 4 v)" and ?l = "unat (v AND 0x0F)"
  note H = hex_upper_props [OF nibbles(1) [of v]]
  note L = hex_upper_props [OF nibbles(2) [of v]]
  have "strtol16 buf = int (?h * 16 + ?l)"
    using H L nibbles(1,2) [of v]
    by (simp add: strtol16_def assms fmt_02X_def Let_def)
  then have "strtol16 buf = int (unat v)"
    by (simp only: nibbles(3))
  then show ?thesis by simp
qed

section \<open>Handling of complete frames\<close>

lemma rx_sequence_diff_zero: "(rx_sequence_diff instance s = 0) = (s = rx_sequence instance)"
proof -
  define d where "d = uint s - uint (rx_sequence instance)"
  have "uint s < 256" "uint (rx_sequence instance) < 256"
    using uint_bounded [of s] uint_bounded [of "rx_sequence instance"] by simp_all
  moreover have "0 \<le> uint s" "0 \<le> uint (rx_sequence instance)"
    by simp_all
  ultimately have range: "- 255 \<le> d" "d \<le> 255"
    unfolding d_def by linarith+
  have "(rx_sequence_diff instance s = 0) = (d = 0)"
    using range by (auto simp add: rx_sequence_diff_def Let_def d_def [symmetric])
  also have "\<dots> = (s = rx_sequence instance)"
    by (auto simp add: d_def word_uint_eq_iff)
  finally show ?thesis .
qed

lemma duplicate_not_valid: "\<not> comm_is_valid_rx_sequence instance (rx_sequence instance)"
  by (simp add: comm_is_valid_rx_sequence_def rx_sequence_diff_def)

text \<open>
  C6. For a CRC-valid frame with command \<open>ACK\<close>: if the sequence read from its data
  equals \<open>expected_ack_seq\<close> and the channel is in WAIT\_ACK, the instance afterwards is
  the one before with state IDLE and \<open>retry_count\<close> 0; in every other case neither the
  instance nor the environment changes. Data holding the two hexadecimal digits of a
  sequence number reads back as that number.
\<close>

theorem ack_frame_handling:
  assumes "is_valid frame" and "cstr (cmd frame) = COMM_CMD_ACK"
  shows "(of_int (strtol16 (data frame)) = expected_ack_seq instance
            \<and> state instance = COMM_STATE_WAIT_ACK
          \<longrightarrow> snd (comm_handle_complete_frame h instance frame)
                = instance\<lparr>state := COMM_STATE_IDLE, retry_count := 0\<rparr>)
       \<and> (\<not> (of_int (strtol16 (data frame)) = expected_ack_seq instance
               \<and> state instance = COMM_STATE_WAIT_ACK)
          \<longrightarrow> comm_handle_complete_frame h instance frame = (h, instance))
       \<and> (cstr (data frame) = fmt_02X s \<longrightarrow> of_int (strtol16 (data frame)) = s)"
  using assms strtol16_fmt_02X [of "data frame" s]
  by (auto simp add: comm_handle_complete_frame_def comm_set_state_def Let_def
      split: option.splits)

theorem ack_frame_handling_witness:
  "is_valid \<lparr>cmd = ''ACK'' @ zeroed 14, data = ''07'' @ zeroed 63, sequence = 0, crc = 0xF1,
             is_valid = True\<rparr>
   \<and> cstr (''ACK'' @ zeroed 14) = COMM_CMD_ACK
   \<and> cstr (''07'' @ zeroed 63) = fmt_02X 7
   \<and> snd (comm_handle_complete_frame (hal_all_ok 0)
        (initialized_instance (Some 1) 1000 3
           \<lparr>state := COMM_STATE_WAIT_ACK, expected_ack_seq := 7, retry_count := 2\<rparr>)
        \<lparr>cmd = ''ACK'' @ zeroed 14, data = ''07'' @ zeroed 63, sequence = 0, crc = 0xF1,
          is_valid = True\<rparr>)
     = initialized_instance (Some 1) 1000 3
         \<lparr>state := COMM_STATE_IDLE, expected_ack_seq := 7, retry_count := 0\<rparr>
   \<and> comm_handle_complete_frame (hal_all_ok 0)
        (initialized_instance (Some 1) 1000 3
           \<lparr>state := COMM_STATE_WAIT_ACK, expected_ack_seq := 8, retry_count := 2\<rparr>)
        \<lparr>cmd = ''ACK'' @ zeroed 14, data = ''07'' @ zeroed 63, sequence = 0, crc = 0xF1,
          is_valid = True\<rparr>
     = (hal_all_ok 0, initialized_instance (Some 1) 1000 3
           \<lparr>state := COMM_STATE_WAIT_ACK, expected_ack_seq := 8, retry_count := 2\<rparr>)"
proof -
  let ?f = "\<lparr>cmd = ''ACK'' @ zeroed 14, data = ''07'' @ zeroed 63, sequence = 0, crc = 0xF1,
             is_valid = True\<rparr>"
  have c: "cstr (cmd ?f) = COMM_CMD_ACK"
    by (simp add: cstr_def zeroed_def NUL_def COMM_CMD_ACK_def)
  have d: "(of_int (strtol16 (data ?f)) :: u8) = 7"
    by (simp add: strtol16_def cstr_def zeroed_def NUL_def isspace_def hex_digit_val_def)
  have v: "is_valid ?f" by simp
  have e: "cstr (''07'' @ zeroed 63) = fmt_02X 7"
    by (simp add: cstr_def zeroed_def NUL_def fmt_02X_def hex_upper_def)
  show ?thesis
    using c d e
      ack_frame_handling [OF v c, of "initialized_instance (Some 1) 1000 3
           \<lparr>state := COMM_STATE_WAIT_ACK, expected_ack_seq := 7, retry_count := 2\<rparr>" "hal_all_ok 0" 7]
      ack_frame_handling [OF v c, of "initialized_instance (Some 1) 1000 3
           \<lparr>state := COMM_STATE_WAIT_ACK, expected_ack_seq := 8, retry_count := 2\<rparr>" "hal_all_ok 0" 7]
    by (simp add: initialized_instance_def)
qed


lemma comm_send_raw_rx_sequence:
  "rx_sequence (fst (snd (comm_send_raw h instance buf len))) = rx_sequence instance"
  by (simp add: comm_send_raw_def HAL_UART_Transmit_def Let_def split: prod.splits)

lemma comm_send_raw_rx_sequenceD:
  "comm_send_raw h instance buf len = (h', i', ok) \<Longrightarrow> rx_sequence i' = rx_sequence instance"
  using comm_send_raw_rx_sequence [of h "instance" buf len] by simp

lemma comm_send_raw_trace:
  "0 < len \<Longrightarrow> trace (fst (comm_send_raw h instance buf len))
                   = trace h @ [UART_Transmit (huart instance) (take len buf)]"
  by (simp add: comm_send_raw_def HAL_UART_Transmit_def emit_def Let_def split: prod.splits)

lemma control_frame_nonempty: "0 < length (control_frame name s)"
  by (simp add: control_frame_def Let_def)

lemma handle_complete_frame_rx_sequence:
  "rx_sequence (snd (comm_handle_complete_frame h instance frame)) \<noteq> rx_sequence instance
     \<Longrightarrow> comm_is_valid_rx_sequence instance (sequence frame)"
  by (auto simp add: comm_handle_complete_frame_def Let_def comm_set_state_def
      comm_send_nak_def comm_handle_timeout_parser_fields(4)
      dest: comm_send_raw_rx_sequenceD
      split: if_splits prod.splits option.splits)

text \<open>
  C8. For a CRC-valid data frame (command neither \<open>ACK\<close> nor \<open>NAK\<close>): when its sequence
  equals \<open>rx_sequence\<close>, the only effect is one transmission of the ACK frame for that
  sequence, so no handler runs and the instance, \<open>rx_sequence\<close> included, is unchanged;
  when its sequence is outside the window and different from \<open>rx_sequence\<close>, the only
  output is one transmission of the NAK frame for it and \<open>rx_sequence\<close> is unchanged.
  For any frame, \<open>rx_sequence\<close> differs afterwards only if the frame's sequence was
  accepted by \<open>comm_is_valid_rx_sequence\<close>.
\<close>

theorem duplicate_and_rejected_frames:
  "(is_valid frame \<and> cstr (cmd frame) \<noteq> COMM_CMD_ACK \<and> cstr (cmd frame) \<noteq> COMM_CMD_NAK
      \<and> sequence frame = rx_sequence instance
    \<longrightarrow> trace (fst (comm_handle_complete_frame h instance frame))
          = trace h @ [UART_Transmit (huart instance) (control_frame COMM_CMD_ACK (sequence frame))]
        \<and> snd (comm_handle_complete_frame h instance frame) = instance)
   \<and> (is_valid frame \<and> cstr (cmd frame) \<noteq> COMM_CMD_ACK \<and> cstr (cmd frame) \<noteq> COMM_CMD_NAK
      \<and> sequence frame \<noteq> rx_sequence instance
      \<and> \<not> comm_is_valid_rx_sequence instance (sequence frame)
    \<longrightarrow> trace (fst (comm_handle_complete_frame h instance frame))
          = trace h @ [UART_Transmit (huart instance) (control_frame COMM_CMD_NAK (sequence frame))]
        \<and> rx_sequence (snd (comm_handle_complete_frame h instance frame)) = rx_sequence instance)
   \<and> (rx_sequence (snd (comm_handle_complete_frame h instance frame)) \<noteq> rx_sequence instance
    \<longrightarrow> comm_is_valid_rx_sequence instance (sequence frame))"
proof -
  have dup: "trace (fst (comm_handle_complete_frame h instance frame))
          = trace h @ [UART_Transmit (huart instance) (control_frame COMM_CMD_ACK (sequence frame))]
        \<and> snd (comm_handle_complete_frame h instance frame) = instance"
    if "is_valid frame" "cstr (cmd frame) \<noteq> COMM_CMD_ACK" "cstr (cmd frame) \<noteq> COMM_CMD_NAK"
      "sequence frame = rx_sequence instance"
    using that duplicate_not_valid [of "instance"]
    by (simp add: comm_handle_complete_frame_def rx_sequence_diff_zero comm_send_ack_def
        HAL_UART_Transmit_def emit_def Let_def split: prod.splits)
  have rej: "trace (fst (comm_handle_complete_frame h instance frame))
          = trace h @ [UART_Transmit (huart instance) (control_frame COMM_CMD_NAK (sequence frame))]
        \<and> rx_sequence (snd (comm_handle_complete_frame h instance frame)) = rx_sequence instance"
    if "is_valid frame" "cstr (cmd frame) \<noteq> COMM_CMD_ACK" "cstr (cmd frame) \<noteq> COMM_CMD_NAK"
      "sequence frame \<noteq> rx_sequence instance"
      "\<not> comm_is_valid_rx_sequence instance (sequence frame)"
  proof -
    let ?nak = "control_frame COMM_CMD_NAK (sequence frame)"
    have "comm_handle_complete_frame h instance frame
            = (fst (comm_send_raw h instance ?nak (length ?nak)),
               fst (snd (comm_send_raw h instance ?nak (length ?nak))))"
      using that
      by (simp add: comm_handle_complete_frame_def rx_sequence_diff_zero comm_send_nak_def
          Let_def split: prod.splits)
    then show ?thesis
      using comm_send_raw_trace [OF control_frame_nonempty, of h "instance" ?nak COMM_CMD_NAK "sequence frame"]
      by (simp add: comm_send_raw_rx_sequence)
  qed
  show ?thesis
    using dup rej handle_complete_frame_rx_sequence by blast
qed


lemma cstr_Cons: "cstr (c # cs) = (if c = NUL then [] else c # cstr cs)"
  by (simp add: cstr_def)

lemma cstr_zeroed: "cstr (zeroed n) = []"
  by (cases n) (simp_all add: cstr_def zeroed_def)

lemma cstr_Nil: "cstr [] = []"
  by (simp add: cstr_def)

lemmas cstr_eval = cstr_Cons cstr_zeroed cstr_Nil NUL_def

lemmas frame_chars = COMM_FRAME_START_def COMM_FRAME_END_def COMM_CMD_DATA_SEPARATOR_def
  COMM_FIELD_SEPARATOR_def COMM_CMD_ACK_def COMM_CMD_NAK_def

lemmas crc8_eval = comm_crc8_calculate_def comm_crc8_verify_def crc8_loops_agree crc8_shift_8
  crc8_shift_def

lemma control_frame_examples:
  "control_frame COMM_CMD_ACK 5 = ''{ACK:05#00#DD}''"
  "control_frame COMM_CMD_ACK 6 = ''{ACK:06#00#E7}''"
  "control_frame COMM_CMD_NAK 250 = ''{NAK:FA#00#ED}''"
  "control_frame COMM_CMD_NAK 11 = ''{NAK:0B#00#02}''"
  by (simp_all add: control_frame_def fmt_02X_def hex_upper_def Let_def crc8_eval frame_chars)

theorem duplicate_and_rejected_frames_witness:
  "trace (fst (comm_handle_complete_frame (hal_all_ok 0)
       (initialized_instance (Some 1) 1000 3\<lparr>rx_sequence := 5\<rparr>)
       \<lparr>cmd = ''PING'' @ zeroed 13, data = ''TEST'' @ zeroed 61, sequence = 5, crc = 0x5D,
         is_valid = True\<rparr>))
     = [UART_Transmit (Some 1) ''{ACK:05#00#DD}'']
   \<and> trace (fst (comm_handle_complete_frame (hal_all_ok 0)
       (initialized_instance (Some 1) 1000 3\<lparr>rx_sequence := 5\<rparr>)
       \<lparr>cmd = ''PING'' @ zeroed 13, data = ''TEST'' @ zeroed 61, sequence = 250, crc = 0xCA,
         is_valid = True\<rparr>))
     = [UART_Transmit (Some 1) ''{NAK:FA#00#ED}'']
   \<and> rx_sequence (snd (comm_handle_complete_frame (hal_all_ok 0)
       (initialized_instance (Some 1) 1000 3\<lparr>rx_sequence := 5\<rparr>)
       \<lparr>cmd = ''PING'' @ zeroed 13, data = ''TEST'' @ zeroed 61, sequence = 6, crc = 0x54,
         is_valid = True\<rparr>)) = 6
   \<and> comm_is_valid_rx_sequence (initialized_instance (Some 1) 1000 3\<lparr>rx_sequence := 5\<rparr>) 6"
proof -
  let ?i = "initialized_instance (Some 1) 1000 3\<lparr>rx_sequence := 5\<rparr>"
  let ?f = "\<lambda>s c. \<lparr>cmd = ''PING'' @ zeroed 13, data = ''TEST'' @ zeroed 61, sequence = s,
                     crc = c, is_valid = True\<rparr>"
  have moved: "rx_sequence (snd (comm_handle_complete_frame (hal_all_ok 0) ?i (?f 6 0x54))) = 6"
    by (simp add: comm_handle_complete_frame_def cstr_eval frame_chars comm_is_valid_rx_sequence_def
        rx_sequence_diff_def initialized_instance_def comm_update_rx_sequence_def Let_def
        split: prod.splits)
  have far: "\<not> comm_is_valid_rx_sequence ?i 250"
    by (simp add: comm_is_valid_rx_sequence_def rx_sequence_diff_def initialized_instance_def)
  show ?thesis
    using duplicate_and_rejected_frames [of "?f 5 0x5D" ?i "hal_all_ok 0"]
      duplicate_and_rejected_frames [of "?f 250 0xCA" ?i "hal_all_ok 0"]
      duplicate_and_rejected_frames [of "?f 6 0x54" ?i "hal_all_ok 0"]
      moved far
    by (simp add: cstr_eval frame_chars control_frame_examples [unfolded frame_chars]
        initialized_instance_def hal_all_ok_def)
qed

lemma anti_loopback_inside_window:
  assumes "is_valid frame" "cstr (cmd frame) \<noteq> COMM_CMD_ACK" "cstr (cmd frame) \<noteq> COMM_CMD_NAK"
    and "state instance = COMM_STATE_WAIT_ACK" "sequence frame = expected_ack_seq instance"
    and "comm_is_valid_rx_sequence instance (sequence frame)"
  shows "comm_handle_complete_frame h instance frame = (h, instance)"
  using assms by (simp add: comm_handle_complete_frame_def)

text \<open>
  C4. The claim is that in WAIT\_ACK a CRC-valid data frame carrying the awaited
  sequence causes no ACK, no NAK and no dispatch, and leaves the channel unaltered. The
  anti-loopback test sits inside the branch for sequences the receive window accepts
  (the lemma above), so outside the window such a frame is answered like any other.
  Here the channel waits for the ACK of its own sequence 11, nothing has been received
  yet (\<open>rx_sequence\<close> is 0), and the frame with sequence 11 is answered with a NAK.
\<close>

theorem anti_loopback_missed_outside_window:
  "state (initialized_instance (Some 1) 1000 3
      \<lparr>state := COMM_STATE_WAIT_ACK, tx_sequence := 11, expected_ack_seq := 11,
        current_sequence := 11\<rparr>) = COMM_STATE_WAIT_ACK
   \<and> trace (fst (comm_handle_complete_frame (hal_all_ok 0)
       (initialized_instance (Some 1) 1000 3
          \<lparr>state := COMM_STATE_WAIT_ACK, tx_sequence := 11, expected_ack_seq := 11,
            current_sequence := 11\<rparr>)
       \<lparr>cmd = ''PING'' @ zeroed 13, data = ''TEST'' @ zeroed 61, sequence = 11, crc = 0x1F,
         is_valid = True\<rparr>))
     = [UART_Transmit (Some 1) ''{NAK:0B#00#02}'']"
  by (simp add: comm_handle_complete_frame_def cstr_eval frame_chars comm_is_valid_rx_sequence_def
        rx_sequence_diff_def initialized_instance_def Let_def comm_send_nak_def
        comm_send_raw_def HAL_UART_Transmit_def emit_def hal_all_ok_def
        control_frame_examples [unfolded frame_chars] split: prod.splits)

section \<open>The parser on a well-formed frame text\<close>

lemma zeroed_update_NUL: "(pre @ zeroed n)[length pre := NUL] = pre @ zeroed n"
  by (cases n) (simp_all add: zeroed_def list_update_beyond)

lemma zeroed_update_byte:
  "0 < n \<Longrightarrow> (pre @ zeroed n)[length pre := b] = (pre @ [b]) @ zeroed (n - 1)"
  by (cases n) (simp_all add: zeroed_def)

lemma process_bytes_Nil: "process_bytes h i [] = i"
  by (simp add: process_bytes_def)

lemma process_bytes_Cons:
  "process_bytes h i (b # bs) = process_bytes h (comm_process_byte_in_interrupt h i b) bs"
  by (simp add: process_bytes_def)

lemma process_bytes_append:
  "process_bytes h i (as @ bs) = process_bytes h (process_bytes h i as) bs"
  by (simp add: process_bytes_def)

lemma parse_cmd_bytes:
  assumes "\<not> new_frame_available i" and "parse_state i = FRAME_STATE_CMD"
    and "rx_index i = length pre"
    and "cmd (pending_frame i) = pre @ zeroed (17 - length pre)"
    and "length pre + length bs \<le> 16" and "COMM_CMD_DATA_SEPARATOR \<notin> set bs"
  shows "process_bytes h i bs
         = i\<lparr>pending_frame := (pending_frame i)
                \<lparr>cmd := (pre @ bs) @ zeroed (17 - length (pre @ bs))\<rparr>,
              rx_index := length (pre @ bs)\<rparr>"
  using assms
proof (induction bs arbitrary: i pre)
  case Nil
  have "i\<lparr>pending_frame := (pending_frame i)\<lparr>cmd := cmd (pending_frame i)\<rparr>,
          rx_index := rx_index i\<rparr> = i"
    by simp
  then show ?case
    using Nil.prems(3,4) by (simp add: process_bytes_Nil)
next
  case (Cons b bs)
  let ?i1 = "i\<lparr>pending_frame := (pending_frame i)
                 \<lparr>cmd := (pre @ [b]) @ zeroed (17 - length (pre @ [b]))\<rparr>,
               rx_index := length (pre @ [b])\<rparr>"
  have step: "comm_process_byte_in_interrupt h i b = ?i1"
    using Cons.prems zeroed_update_byte [of "17 - length pre" pre b]
    by (auto simp add: comm_process_byte_in_interrupt_def COMM_MAX_CMD_LENGTH_def)
  have "process_bytes h ?i1 bs
          = ?i1\<lparr>pending_frame := (pending_frame ?i1)
                  \<lparr>cmd := ((pre @ [b]) @ bs) @ zeroed (17 - length ((pre @ [b]) @ bs))\<rparr>,
                rx_index := length ((pre @ [b]) @ bs)\<rparr>"
    using Cons.prems by (intro Cons.IH) simp_all
  then show ?case
    by (simp add: process_bytes_Cons step)
qed

lemma parse_data_bytes:
  assumes "\<not> new_frame_available i" and "parse_state i = FRAME_STATE_DATA"
    and "rx_index i = length pre"
    and "data (pending_frame i) = pre @ zeroed (65 - length pre)"
    and "length pre + length bs \<le> 64" and "COMM_FIELD_SEPARATOR \<notin> set bs"
  shows "process_bytes h i bs
         = i\<lparr>pending_frame := (pending_frame i)
                \<lparr>data := (pre @ bs) @ zeroed (65 - length (pre @ bs))\<rparr>,
              rx_index := length (pre @ bs)\<rparr>"
  using assms
proof (induction bs arbitrary: i pre)
  case Nil
  have "i\<lparr>pending_frame := (pending_frame i)\<lparr>data := data (pending_frame i)\<rparr>,
          rx_index := rx_index i\<rparr> = i"
    by simp
  then show ?case
    using Nil.prems(3,4) by (simp add: process_bytes_Nil)
next
  case (Cons b bs)
  let ?i1 = "i\<lparr>pending_frame := (pending_frame i)
                 \<lparr>data := (pre @ [b]) @ zeroed (65 - length (pre @ [b]))\<rparr>,
               rx_index := length (pre @ [b])\<rparr>"
  have step: "comm_process_byte_in_interrupt h i b = ?i1"
    using Cons.prems zeroed_update_byte [of "65 - length pre" pre b]
    by (auto simp add: comm_process_byte_in_interrupt_def COMM_MAX_DATA_LENGTH_def)
  have "process_bytes h ?i1 bs
          = ?i1\<lparr>pending_frame := (pending_frame ?i1)
                  \<lparr>data := ((pre @ [b]) @ bs) @ zeroed (65 - length ((pre @ [b]) @ bs))\<rparr>,
                rx_index := length ((pre @ [b]) @ bs)\<rparr>"
    using Cons.prems by (intro Cons.IH) simp_all
  then show ?case
    by (simp add: process_bytes_Cons step)
qed


lemma strtol16_cong: "cstr x = cstr y \<Longrightarrow> strtol16 x = strtol16 y"
  by (simp add: strtol16_def)

lemma hex_field_buffer:
  assumes "3 \<le> length rb"
  shows "strtol16 (rb[0 := a, Suc 0 := b, 2 := NUL]) = strtol16 [a, b]"
proof -
  obtain x y z rest where rb: "rb = x # y # z # rest"
    using assms by (cases rb; cases "tl rb"; cases "tl (tl rb)") auto
  show ?thesis
    by (rule strtol16_cong) (simp add: rb cstr_Cons cstr_Nil eval_nat_numeral)
qed

lemma parse_frame_body:
  assumes idle: "\<not> new_frame_available i" "parse_state i = FRAME_STATE_IDLE"
    and rb: "3 \<le> length (rx_buffer i)"
    and c: "length c \<le> 16" "COMM_CMD_DATA_SEPARATOR \<notin> set c"
    and d: "length d \<le> 64" "COMM_FIELD_SEPARATOR \<notin> set d"
    and s: "s1 \<noteq> COMM_FIELD_SEPARATOR" "s2 \<noteq> COMM_FIELD_SEPARATOR"
    and k: "k1 \<noteq> COMM_FRAME_END" "k2 \<noteq> COMM_FRAME_END"
  shows "process_bytes h i
           ([COMM_FRAME_START] @ c @ [COMM_CMD_DATA_SEPARATOR] @ d @ [COMM_FIELD_SEPARATOR]
              @ [s1, s2] @ [COMM_FIELD_SEPARATOR] @ [k1, k2])
         = i\<lparr>parse_state := FRAME_STATE_CRC, rx_index := 2,
              frame_timeout := HAL_GetTick h + COMM_FRAME_TIMEOUT_MS,
              rx_buffer := (rx_buffer i)[0 := s1, Suc 0 := s2, 2 := NUL, 0 := k1, Suc 0 := k2],
              pending_frame := zero_frame
                \<lparr>cmd := c @ zeroed (17 - length c), data := d @ zeroed (65 - length d),
                 sequence := of_int (strtol16 [s1, s2])\<rparr>\<rparr>"
proof -
  let ?P = "comm_process_byte_in_interrupt h"
  let ?cmd = "c @ zeroed (17 - length c)" and ?data = "d @ zeroed (65 - length d)"
  let ?seq = "of_int (strtol16 [s1, s2]) :: u8"
  let ?t = "HAL_GetTick h + COMM_FRAME_TIMEOUT_MS"
  let ?i1 = "i\<lparr>parse_state := FRAME_STATE_CMD, rx_index := 0, frame_timeout := ?t,
                 pending_frame := zero_frame\<rparr>"
  let ?i2 = "i\<lparr>parse_state := FRAME_STATE_CMD, rx_index := length c, frame_timeout := ?t,
                 pending_frame := zero_frame\<lparr>cmd := ?cmd\<rparr>\<rparr>"
  let ?i3 = "i\<lparr>parse_state := FRAME_STATE_DATA, rx_index := 0, frame_timeout := ?t,
                 pending_frame := zero_frame\<lparr>cmd := ?cmd\<rparr>\<rparr>"
  let ?i4 = "i\<lparr>parse_state := FRAME_STATE_DATA, rx_index := length d, frame_timeout := ?t,
                 pending_frame := zero_frame\<lparr>cmd := ?cmd, data := ?data\<rparr>\<rparr>"
  let ?i5 = "i\<lparr>parse_state := FRAME_STATE_SEQ, rx_index := 0, frame_timeout := ?t,
                 pending_frame := zero_frame\<lparr>cmd := ?cmd, data := ?data\<rparr>\<rparr>"
  let ?i7 = "i\<lparr>parse_state := FRAME_STATE_SEQ, rx_index := 2, frame_timeout := ?t,
                 rx_buffer := (rx_buffer i)[0 := s1, Suc 0 := s2],
                 pending_frame := zero_frame\<lparr>cmd := ?cmd, data := ?data\<rparr>\<rparr>"
  let ?i8 = "i\<lparr>parse_state := FRAME_STATE_CRC, rx_index := 0, frame_timeout := ?t,
                 rx_buffer := (rx_buffer i)[0 := s1, Suc 0 := s2, 2 := NUL],
                 pending_frame := zero_frame\<lparr>cmd := ?cmd, data := ?data, sequence := ?seq\<rparr>\<rparr>"
  let ?i10 = "i\<lparr>parse_state := FRAME_STATE_CRC, rx_index := 2, frame_timeout := ?t,
                 rx_buffer := (rx_buffer i)[0 := s1, Suc 0 := s2, 2 := NUL, 0 := k1, Suc 0 := k2],
                 pending_frame := zero_frame\<lparr>cmd := ?cmd, data := ?data, sequence := ?seq\<rparr>\<rparr>"
  have e1: "?P i COMM_FRAME_START = ?i1"
    using idle by (simp add: comm_process_byte_in_interrupt_def)
  have e2: "process_bytes h ?i1 c = ?i2"
    using parse_cmd_bytes [of ?i1 "[]" c h] idle c
    by (simp add: zero_frame_def COMM_MAX_CMD_LENGTH_def)
  have e3: "?P ?i2 COMM_CMD_DATA_SEPARATOR = ?i3"
    using idle zeroed_update_NUL [of c "17 - length c"]
    by (simp add: comm_process_byte_in_interrupt_def)
  have e4: "process_bytes h ?i3 d = ?i4"
    using parse_data_bytes [of ?i3 "[]" d h] idle d
    by (simp add: zero_frame_def COMM_MAX_DATA_LENGTH_def)
  have e5: "?P ?i4 COMM_FIELD_SEPARATOR = ?i5"
    using idle zeroed_update_NUL [of d "65 - length d"]
    by (simp add: comm_process_byte_in_interrupt_def)
  have e7: "?P (?P ?i5 s1) s2 = ?i7"
    using idle s by (simp add: comm_process_byte_in_interrupt_def)
  have e8: "?P ?i7 COMM_FIELD_SEPARATOR = ?i8"
    using idle hex_field_buffer [OF rb, of s1 s2]
    by (simp add: comm_process_byte_in_interrupt_def Let_def)
  have e10: "?P (?P ?i8 k1) k2 = ?i10"
    using idle k by (simp add: comm_process_byte_in_interrupt_def)
  have "process_bytes h i
           ([COMM_FRAME_START] @ c @ [COMM_CMD_DATA_SEPARATOR] @ d @ [COMM_FIELD_SEPARATOR]
              @ [s1, s2] @ [COMM_FIELD_SEPARATOR] @ [k1, k2])
        = ?P (?P (?P (?P (?P (?P (process_bytes h (?P (process_bytes h
            (?P i COMM_FRAME_START) c) COMM_CMD_DATA_SEPARATOR) d) COMM_FIELD_SEPARATOR)
            s1) s2) COMM_FIELD_SEPARATOR) k1) k2"
    by (simp add: process_bytes_append process_bytes_Cons process_bytes_Nil)
  then show ?thesis
    by (simp only: e1 e2 e3 e4 e5 e7 e8 e10)
qed

lemma parse_frame_text:
  assumes idle: "\<not> new_frame_available i" "parse_state i = FRAME_STATE_IDLE"
    and rb: "3 \<le> length (rx_buffer i)"
    and c: "length c \<le> 16" "COMM_CMD_DATA_SEPARATOR \<notin> set c"
    and d: "length d \<le> 64" "COMM_FIELD_SEPARATOR \<notin> set d"
    and s: "s1 \<noteq> COMM_FIELD_SEPARATOR" "s2 \<noteq> COMM_FIELD_SEPARATOR"
    and k: "k1 \<noteq> COMM_FRAME_END" "k2 \<noteq> COMM_FRAME_END"
  shows "process_bytes h i
           ([COMM_FRAME_START] @ c @ [COMM_CMD_DATA_SEPARATOR] @ d @ [COMM_FIELD_SEPARATOR]
              @ [s1, s2] @ [COMM_FIELD_SEPARATOR] @ [k1, k2] @ [COMM_FRAME_END])
         = (let pf = \<lparr>cmd = c @ zeroed (17 - length c), data = d @ zeroed (65 - length d),
                       sequence = of_int (strtol16 [s1, s2]), crc = of_int (strtol16 [k1, k2]),
                       is_valid = False\<rparr>;
                ok = comm_crc8_verify (Some (map of_char (frame_for_crc pf)))
                       (of_nat (length (frame_for_crc pf))) (crc pf)
            in i\<lparr>parse_state := FRAME_STATE_IDLE, rx_index := 0,
                  frame_timeout := HAL_GetTick h + COMM_FRAME_TIMEOUT_MS,
                  rx_buffer := (rx_buffer i)[0 := s1, Suc 0 := s2, 2 := NUL, 0 := k1,
                                             Suc 0 := k2, 2 := NUL],
                  pending_frame := pf\<lparr>is_valid := ok\<rparr>,
                  new_frame_available := ok\<rparr>)"
proof -
  let ?body = "[COMM_FRAME_START] @ c @ [COMM_CMD_DATA_SEPARATOR] @ d @ [COMM_FIELD_SEPARATOR]
                 @ [s1, s2] @ [COMM_FIELD_SEPARATOR] @ [k1, k2]"
  have rb': "3 \<le> length ((rx_buffer i)[0 := s1, Suc 0 := s2, 2 := NUL])"
    using rb by simp
  have "process_bytes h i (?body @ [COMM_FRAME_END])
          = comm_process_byte_in_interrupt h (process_bytes h i ?body) COMM_FRAME_END"
    by (simp only: process_bytes_append process_bytes_Cons process_bytes_Nil)
  also have "\<dots> = (let pf = \<lparr>cmd = c @ zeroed (17 - length c), data = d @ zeroed (65 - length d),
                       sequence = of_int (strtol16 [s1, s2]), crc = of_int (strtol16 [k1, k2]),
                       is_valid = False\<rparr>;
                ok = comm_crc8_verify (Some (map of_char (frame_for_crc pf)))
                       (of_nat (length (frame_for_crc pf))) (crc pf)
            in i\<lparr>parse_state := FRAME_STATE_IDLE, rx_index := 0,
                  frame_timeout := HAL_GetTick h + COMM_FRAME_TIMEOUT_MS,
                  rx_buffer := (rx_buffer i)[0 := s1, Suc 0 := s2, 2 := NUL, 0 := k1,
                                             Suc 0 := k2, 2 := NUL],
                  pending_frame := pf\<lparr>is_valid := ok\<rparr>,
                  new_frame_available := ok\<rparr>)"
    unfolding parse_frame_body [OF assms]
    using idle hex_field_buffer [OF rb', of k1 k2]
    by (simp add: comm_process_byte_in_interrupt_def Let_def zero_frame_def frame_for_crc_def)
  finally show ?thesis
    by simp
qed

lemma crc_full:
  assumes "length bs < 65536"
  shows "comm_crc8_calculate (Some bs) (of_nat (length bs)) = crc8_table_loop 0 bs"
proof -
  have u: "unat (of_nat (length bs) :: u16) = length bs"
    using assms by (simp add: unat_of_nat)
  show ?thesis
  proof (cases "bs = []")
    case True
    then show ?thesis by (simp add: comm_crc8_calculate_def)
  next
    case False
    then have "(of_nat (length bs) :: u16) \<noteq> 0"
      using u by (metis length_0_conv unat_0)
    then show ?thesis
      by (simp add: comm_crc8_calculate_def u)
  qed
qed

lemma hex_upper_not_delimiter:
  assumes "n < 16"
  shows "hex_upper n \<noteq> COMM_FIELD_SEPARATOR" and "hex_upper n \<noteq> COMM_FRAME_END"
proof -
  have "list_all (\<lambda>n. hex_upper n \<noteq> COMM_FIELD_SEPARATOR \<and> hex_upper n \<noteq> COMM_FRAME_END)
          [0..<16]"
    by (simp add: upt_rec hex_upper_def COMM_FIELD_SEPARATOR_def COMM_FRAME_END_def)
  then have "hex_upper n \<noteq> COMM_FIELD_SEPARATOR \<and> hex_upper n \<noteq> COMM_FRAME_END"
    using assms unfolding list_all_iff by (metis atLeastLessThan_iff set_upt zero_le)
  then show "hex_upper n \<noteq> COMM_FIELD_SEPARATOR" and "hex_upper n \<noteq> COMM_FRAME_END"
    by simp_all
qed

lemma comm_build_frame_text:
  assumes "strlen name \<le> COMM_MAX_CMD_LENGTH" and "strlen payload \<le> COMM_MAX_DATA_LENGTH"
  shows "comm_build_frame tx name payload fb
         = (let seq = (if retry_count tx > 0 then current_sequence tx
                       else if tx_sequence tx + 1 = 0 then 1 else tx_sequence tx + 1);
                body = cstr name @ [COMM_CMD_DATA_SEPARATOR] @ cstr payload
                         @ [COMM_FIELD_SEPARATOR] @ fmt_02X seq;
                text = [COMM_FRAME_START] @ body @ [COMM_FIELD_SEPARATOR]
                         @ fmt_02X (crc8_table_loop 0 (map of_char body)) @ [COMM_FRAME_END]
            in ((if retry_count tx > 0 then tx
                 else tx\<lparr>tx_sequence := seq, current_sequence := seq\<rparr>)
                  \<lparr>expected_ack_seq := seq\<rparr>,
                snprintf_store COMM_TX_BUFFER_SIZE text fb, Some (length text)))"
proof -
  define seq where "seq = (if retry_count tx > 0 then current_sequence tx
                       else if tx_sequence tx + 1 = 0 then 1 else tx_sequence tx + 1)"
  define body where "body = cstr name @ [COMM_CMD_DATA_SEPARATOR] @ cstr payload
                         @ [COMM_FIELD_SEPARATOR] @ fmt_02X seq"
  define crc_val where "crc_val = crc8_table_loop 0 (map of_char body)"
  define ftext where "ftext = [COMM_FRAME_START] @ body @ [COMM_FIELD_SEPARATOR]
                         @ fmt_02X crc_val @ [COMM_FRAME_END]"
  define tx1 where "tx1 = (if retry_count tx > 0 then tx
                           else tx\<lparr>tx_sequence := seq, current_sequence := seq\<rparr>)"
  have len: "length body \<le> 84"
    using assms
    by (simp add: body_def strlen_def fmt_02X_def COMM_MAX_CMD_LENGTH_def COMM_MAX_DATA_LENGTH_def)
  have content: "[COMM_FRAME_START] @ cstr name @ [COMM_CMD_DATA_SEPARATOR] @ cstr payload
                   @ [COMM_FIELD_SEPARATOR] @ fmt_02X seq = COMM_FRAME_START # body"
    by (simp add: body_def)
  have nonul: "NUL \<notin> set (COMM_FRAME_START # body)"
    using NUL_notin_cstr [of name] NUL_notin_cstr [of payload] NUL_notin_fmt_02X [of seq]
    by (simp add: body_def COMM_FRAME_START_def COMM_CMD_DATA_SEPARATOR_def
        COMM_FIELD_SEPARATOR_def NUL_def)
  have crc: "comm_crc8_calculate (Some (map of_char (tl (COMM_FRAME_START # body))))
               (of_nat (length (COMM_FRAME_START # body) - 1)) = crc_val"
    using len crc_full [of "map of_char body"] by (simp add: crc_val_def)
  have total: "cstr (COMM_FRAME_START # body) @ [COMM_FIELD_SEPARATOR] @ fmt_02X crc_val
                 @ [COMM_FRAME_END] = ftext"
    using cstr_no_NUL [OF nonul] by (simp add: ftext_def)
  have seq_step: "(if retry_count tx > 0 then (tx, current_sequence tx)
                   else (let (i0, s) = comm_get_next_tx_sequence tx
                         in (i0\<lparr>current_sequence := s\<rparr>, s))) = (tx1, seq)"
    by (simp add: comm_get_next_tx_sequence_def Let_def seq_def tx1_def)
  have fits: "\<not> length (COMM_FRAME_START # body) \<ge> COMM_TX_BUFFER_SIZE"
    "\<not> length ftext \<ge> COMM_TX_BUFFER_SIZE"
    using len by (simp_all add: ftext_def fmt_02X_def COMM_TX_BUFFER_SIZE_def)
  have short: "\<not> (strlen name > COMM_MAX_CMD_LENGTH \<or> strlen payload > COMM_MAX_DATA_LENGTH)"
    using assms by simp
  have "comm_build_frame tx name payload fb
          = (tx1\<lparr>expected_ack_seq := seq\<rparr>, snprintf_store COMM_TX_BUFFER_SIZE ftext fb,
             Some (length ftext))"
    unfolding comm_build_frame_def seq_step
    by (simp only: Let_def prod.case content crc total fits short if_False)
  then show ?thesis
    by (simp only: Let_def tx1_def ftext_def crc_val_def body_def seq_def)
qed

section \<open>Round trip of the frame codec\<close>

lemma fmt_02X_chars:
  "\<exists>a b. fmt_02X v = [a, b] \<and> a \<noteq> COMM_FIELD_SEPARATOR \<and> b \<noteq> COMM_FIELD_SEPARATOR
          \<and> a \<noteq> COMM_FRAME_END \<and> b \<noteq> COMM_FRAME_END"
  using hex_upper_not_delimiter [OF nibbles(1) [of v]] hex_upper_not_delimiter [OF nibbles(2) [of v]]
  by (simp add: fmt_02X_def)

lemma cstr_padded: "NUL \<notin> set s \<Longrightarrow> 0 < n \<Longrightarrow> cstr (s @ zeroed n) = s"
  by (cases n) (simp_all add: zeroed_def cstr_terminated)

text \<open>
  C1. For every command of at most 16 bytes and data of at most 64 bytes, neither
  containing \<open>:\<close>, \<open>#\<close>, \<open>{\<close> or \<open>}\<close>, \<open>comm_build_frame\<close> succeeds, and feeding
  the bytes of the frame it wrote to \<open>comm_process_byte_in_interrupt\<close> on a channel
  whose parser is idle with no frame pending leaves a published frame that is valid and
  carries the same command, data and sequence.
\<close>

theorem frame_round_trip:
  assumes "strlen name \<le> COMM_MAX_CMD_LENGTH" and "strlen payload \<le> COMM_MAX_DATA_LENGTH"
    and "set (cstr name @ cstr payload) \<inter> {CHR '':'', CHR ''#'', CHR ''{'', CHR ''}''} = {}"
    and "parse_state rx = FRAME_STATE_IDLE" and "\<not> new_frame_available rx"
    and "length (rx_buffer rx) = COMM_RX_BUFFER_SIZE"
  shows "case comm_build_frame tx name payload frame_buffer of
           (tx', buf', built) \<Rightarrow>
             built \<noteq> None
             \<and> (let rx' = process_bytes h rx (take (the built) buf')
                in new_frame_available rx'
                   \<and> is_valid (pending_frame rx')
                   \<and> cstr (cmd (pending_frame rx')) = cstr name
                   \<and> cstr (data (pending_frame rx')) = cstr payload
                   \<and> sequence (pending_frame rx') = expected_ack_seq tx'
                   \<and> sequence (pending_frame rx') = current_sequence tx')"
proof -
  define seq where "seq = (if retry_count tx > 0 then current_sequence tx
                       else if tx_sequence tx + 1 = 0 then 1 else tx_sequence tx + 1)"
  define body where "body = cstr name @ [COMM_CMD_DATA_SEPARATOR] @ cstr payload
                         @ [COMM_FIELD_SEPARATOR] @ fmt_02X seq"
  define crc_val where "crc_val = crc8_table_loop 0 (map of_char body)"
  define ftext where "ftext = [COMM_FRAME_START] @ body @ [COMM_FIELD_SEPARATOR]
                         @ fmt_02X crc_val @ [COMM_FRAME_END]"
  define tx' where "tx' = (if retry_count tx > 0 then tx
                           else tx\<lparr>tx_sequence := seq, current_sequence := seq\<rparr>)
                            \<lparr>expected_ack_seq := seq\<rparr>"
  have built: "comm_build_frame tx name payload frame_buffer
                 = (tx', snprintf_store COMM_TX_BUFFER_SIZE ftext frame_buffer, Some (length ftext))"
    using comm_build_frame_text [OF assms(1,2), of tx frame_buffer]
    by (simp only: Let_def tx'_def ftext_def crc_val_def body_def seq_def)
  have lens: "length (cstr name) \<le> 16" "length (cstr payload) \<le> 64"
    using assms(1,2) by (simp_all add: strlen_def COMM_MAX_CMD_LENGTH_def COMM_MAX_DATA_LENGTH_def)
  have short: "length ftext \<le> 127"
    using lens by (simp add: ftext_def body_def fmt_02X_def)
  have sent: "take (length ftext) (snprintf_store COMM_TX_BUFFER_SIZE ftext frame_buffer) = ftext"
    using short by (simp add: snprintf_store_def COMM_TX_BUFFER_SIZE_def Let_def)
  have seqs: "expected_ack_seq tx' = seq" "current_sequence tx' = seq"
    by (simp_all add: tx'_def seq_def)
  obtain s1 s2 where s: "fmt_02X seq = [s1, s2]" "s1 \<noteq> COMM_FIELD_SEPARATOR"
    "s2 \<noteq> COMM_FIELD_SEPARATOR"
    using fmt_02X_chars [of seq] by blast
  obtain k1 k2 where k: "fmt_02X crc_val = [k1, k2]" "k1 \<noteq> COMM_FRAME_END" "k2 \<noteq> COMM_FRAME_END"
    using fmt_02X_chars [of crc_val] by blast
  have no_sep: "COMM_CMD_DATA_SEPARATOR \<notin> set (cstr name)"
    "COMM_FIELD_SEPARATOR \<notin> set (cstr payload)"
    using assms(3) by (auto simp add: COMM_CMD_DATA_SEPARATOR_def COMM_FIELD_SEPARATOR_def)
  have rb: "3 \<le> length (rx_buffer rx)"
    using assms(6) by (simp add: COMM_RX_BUFFER_SIZE_def)
  define pf where "pf = \<lparr>cmd = cstr name @ zeroed (17 - length (cstr name)),
                         data = cstr payload @ zeroed (65 - length (cstr payload)),
                         sequence = (of_int (strtol16 [s1, s2]) :: u8),
                         crc = (of_int (strtol16 [k1, k2]) :: u8), is_valid = False\<rparr>"
  have seq_back: "(of_int (strtol16 [s1, s2]) :: u8) = seq"
    using strtol16_fmt_02X [of "[s1, s2]" seq] cstr_no_NUL [OF NUL_notin_fmt_02X [of seq]]
    by (simp add: s(1))
  have crc_back: "(of_int (strtol16 [k1, k2]) :: u8) = crc_val"
    using strtol16_fmt_02X [of "[k1, k2]" crc_val] cstr_no_NUL [OF NUL_notin_fmt_02X [of crc_val]]
    by (simp add: k(1))
  have names: "cstr (cmd pf) = cstr name" "cstr (data pf) = cstr payload"
    using lens cstr_padded [OF NUL_notin_cstr [of name], of "17 - length (cstr name)"]
      cstr_padded [OF NUL_notin_cstr [of payload], of "65 - length (cstr payload)"]
    by (simp_all add: pf_def)
  have rebuilt: "frame_for_crc pf = body"
    by (simp add: frame_for_crc_def names body_def) (simp add: pf_def seq_back)
  have "length body < 65536"
    using lens by (simp add: body_def fmt_02X_def)
  then have ok: "comm_crc8_verify (Some (map of_char (frame_for_crc pf)))
                   (of_nat (length (frame_for_crc pf))) (crc pf)"
    using crc_full [of "map of_char body"]
    by (simp add: comm_crc8_verify_def rebuilt) (simp add: pf_def crc_back crc_val_def)
  have ftext': "ftext = [COMM_FRAME_START] @ cstr name @ [COMM_CMD_DATA_SEPARATOR] @ cstr payload
                  @ [COMM_FIELD_SEPARATOR] @ [s1, s2] @ [COMM_FIELD_SEPARATOR] @ [k1, k2]
                  @ [COMM_FRAME_END]"
    by (simp add: ftext_def body_def s(1) k(1))
  define rx' where "rx' = process_bytes h rx ftext"
  have parsed: "rx' = rx\<lparr>parse_state := FRAME_STATE_IDLE, rx_index := 0,
                  frame_timeout := HAL_GetTick h + COMM_FRAME_TIMEOUT_MS,
                  rx_buffer := (rx_buffer rx)[0 := s1, Suc 0 := s2, 2 := NUL, 0 := k1,
                                              Suc 0 := k2, 2 := NUL],
                  pending_frame := pf\<lparr>is_valid := True\<rparr>,
                  new_frame_available := True\<rparr>"
    unfolding rx'_def ftext'
    using parse_frame_text [OF assms(5,4) rb lens(1) no_sep(1) lens(2) no_sep(2) s(2,3) k(2,3),
        of h] ok
    by (simp only: Let_def pf_def [symmetric] simp_thms)
  have result: "new_frame_available rx' \<and> is_valid (pending_frame rx')
       \<and> cstr (cmd (pending_frame rx')) = cstr name
       \<and> cstr (data (pending_frame rx')) = cstr payload
       \<and> sequence (pending_frame rx') = expected_ack_seq tx'
       \<and> sequence (pending_frame rx') = current_sequence tx'"
    using names by (simp add: parsed seqs) (simp add: pf_def seq_back)
  show ?thesis
    using result by (simp add: built sent rx'_def Let_def seqs)
qed


theorem frame_round_trip_witness:
  "strlen ''PING'' \<le> COMM_MAX_CMD_LENGTH \<and> strlen ''TEST'' \<le> COMM_MAX_DATA_LENGTH
   \<and> set (cstr ''PING'' @ cstr ''TEST'') \<inter> {CHR '':'', CHR ''#'', CHR ''{'', CHR ''}''} = {}
   \<and> parse_state (initialized_instance (Some 2) 1000 3) = FRAME_STATE_IDLE
   \<and> \<not> new_frame_available (initialized_instance (Some 2) 1000 3)
   \<and> length (rx_buffer (initialized_instance (Some 2) 1000 3)) = COMM_RX_BUFFER_SIZE
   \<and> (case comm_build_frame (initialized_instance (Some 1) 1000 3) ''PING'' ''TEST''
              (zeroed COMM_TX_BUFFER_SIZE) of
         (tx', buf', built) \<Rightarrow>
           built \<noteq> None
           \<and> (let rx' = process_bytes (hal_all_ok 0) (initialized_instance (Some 2) 1000 3)
                           (take (the built) buf')
              in new_frame_available rx'
                 \<and> is_valid (pending_frame rx')
                 \<and> cstr (cmd (pending_frame rx')) = cstr ''PING''
                 \<and> cstr (data (pending_frame rx')) = cstr ''TEST''
                 \<and> sequence (pending_frame rx') = expected_ack_seq tx'
                 \<and> sequence (pending_frame rx') = current_sequence tx'))"
proof -
  have pre: "strlen ''PING'' \<le> COMM_MAX_CMD_LENGTH" "strlen ''TEST'' \<le> COMM_MAX_DATA_LENGTH"
    "set (cstr ''PING'' @ cstr ''TEST'') \<inter> {CHR '':'', CHR ''#'', CHR ''{'', CHR ''}''} = {}"
    "parse_state (initialized_instance (Some 2) 1000 3) = FRAME_STATE_IDLE"
    "\<not> new_frame_available (initialized_instance (Some 2) 1000 3)"
    "length (rx_buffer (initialized_instance (Some 2) 1000 3)) = COMM_RX_BUFFER_SIZE"
    by (simp_all add: strlen_def cstr_eval COMM_MAX_CMD_LENGTH_def COMM_MAX_DATA_LENGTH_def
        initialized_instance_def zeroed_def)
  show ?thesis
    using pre frame_round_trip [OF pre, where tx = "initialized_instance (Some 1) 1000 3"
        and frame_buffer = "zeroed COMM_TX_BUFFER_SIZE" and h = "hal_all_ok 0"]
    by blast
qed

lemma built_frame_example:
  "case comm_build_frame (initialized_instance (Some 1) 1000 3\<lparr>tx_sequence := 3\<rparr>)
          ''PING'' ''TEST'' fb of
     (tx', buf', built) \<Rightarrow>
       built = Some 17 \<and> take 17 buf' = ''{PING:TEST#04#5A}'' \<and> expected_ack_seq tx' = 4"
proof -
  have short: "strlen ''PING'' \<le> COMM_MAX_CMD_LENGTH" "strlen ''TEST'' \<le> COMM_MAX_DATA_LENGTH"
    by (simp_all add: strlen_def cstr_eval COMM_MAX_CMD_LENGTH_def COMM_MAX_DATA_LENGTH_def)
  have crc: "crc8_table_loop 0 (map of_char ''PING:TEST#04'') = 0x5A"
    by (simp add: crc8_loops_agree crc8_shift_8 crc8_shift_def)
  have fmts: "fmt_02X 4 = ''04''" "fmt_02X 0x5A = ''5A''"
    by (simp_all add: fmt_02X_def hex_upper_def)
  have seq: "(if retry_count (initialized_instance (Some 1) 1000 3\<lparr>tx_sequence := 3\<rparr>) > 0
              then current_sequence (initialized_instance (Some 1) 1000 3\<lparr>tx_sequence := 3\<rparr>)
              else if tx_sequence (initialized_instance (Some 1) 1000 3\<lparr>tx_sequence := 3\<rparr>) + 1 = 0
                   then 1
                   else tx_sequence (initialized_instance (Some 1) 1000 3\<lparr>tx_sequence := 3\<rparr>) + 1)
             = 4"
    by (simp add: initialized_instance_def)
  have body: "cstr ''PING'' @ [COMM_CMD_DATA_SEPARATOR] @ cstr ''TEST''
                         @ [COMM_FIELD_SEPARATOR] @ fmt_02X 4 = ''PING:TEST#04''"
    by (simp add: cstr_eval fmts frame_chars)
  have ftext: "[COMM_FRAME_START] @ ''PING:TEST#04'' @ [COMM_FIELD_SEPARATOR]
                         @ fmt_02X 0x5A @ [COMM_FRAME_END] = ''{PING:TEST#04#5A}''"
    by (simp add: fmts frame_chars)
  have "comm_build_frame (initialized_instance (Some 1) 1000 3\<lparr>tx_sequence := 3\<rparr>)
          ''PING'' ''TEST'' fb
        = ((initialized_instance (Some 1) 1000 3\<lparr>tx_sequence := 3\<rparr>)
             \<lparr>tx_sequence := 4, current_sequence := 4, expected_ack_seq := 4\<rparr>,
           snprintf_store COMM_TX_BUFFER_SIZE ''{PING:TEST#04#5A}'' fb, Some 17)"
    unfolding comm_build_frame_text [OF short,
        of "initialized_instance (Some 1) 1000 3\<lparr>tx_sequence := 3\<rparr>" fb]
    apply (simp only: Let_def seq body crc ftext)
    apply (simp add: initialized_instance_def)
    done
  then show ?thesis
    by (simp add: snprintf_store_def COMM_TX_BUFFER_SIZE_def)
qed

section \<open>Publication of parsed frames\<close>

lemma initialized_parser_idle:
  "\<not> new_frame_available (initialized_instance u t r)"
  "parse_state (initialized_instance u t r) = FRAME_STATE_IDLE"
  "3 \<le> length (rx_buffer (initialized_instance u t r))"
  by (simp_all add: initialized_instance_def zeroed_def COMM_RX_BUFFER_SIZE_def)

lemma hex_field_values:
  "(of_int (strtol16 ''01'') :: u8) = 1"
  "(of_int (strtol16 ''00'') :: u8) = 0"
  "(of_int (strtol16 ''0F'') :: u8) = 0x0F"
  by (simp_all add: strtol16_def isspace_def hex_digit_val_def cstr_eval)

text \<open>
  C3 as claimed fails: the frame \<open>{A:#01#00}\<close> carries CRC 00 where the CRC-8 of
  \<open>A:#01\<close> is 0F. Its closing brace arrives in the CRC state, and afterwards
  \<open>new_frame_available\<close> is not set.
\<close>

theorem crc_mismatch_not_published:
  "parse_state (process_bytes (hal_all_ok 0) (initialized_instance (Some 1) 1000 3) ''{A:#01#00'')
     = FRAME_STATE_CRC
   \<and> \<not> new_frame_available
         (comm_process_byte_in_interrupt (hal_all_ok 0)
            (process_bytes (hal_all_ok 0) (initialized_instance (Some 1) 1000 3) ''{A:#01#00'')
            (CHR ''}''))"
proof -
  let ?i = "initialized_instance (Some 1) 1000 3"
  note idle = initialized_parser_idle [of "Some 1" 1000 3]
  have shape: "''{A:#01#00'' = [COMM_FRAME_START] @ ''A'' @ [COMM_CMD_DATA_SEPARATOR] @ []
                 @ [COMM_FIELD_SEPARATOR] @ [CHR ''0'', CHR ''1''] @ [COMM_FIELD_SEPARATOR]
                 @ [CHR ''0'', CHR ''0'']"
    by (simp add: frame_chars)
  have side: "length ''A'' \<le> 16" "COMM_CMD_DATA_SEPARATOR \<notin> set ''A''"
    "length ([] :: string) \<le> 64" "COMM_FIELD_SEPARATOR \<notin> set ([] :: string)"
    "CHR ''0'' \<noteq> COMM_FIELD_SEPARATOR" "CHR ''1'' \<noteq> COMM_FIELD_SEPARATOR"
    "CHR ''0'' \<noteq> COMM_FRAME_END" "CHR ''0'' \<noteq> COMM_FRAME_END"
    by (simp_all add: frame_chars)
  have in_crc: "parse_state (process_bytes (hal_all_ok 0) ?i ''{A:#01#00'') = FRAME_STATE_CRC"
    unfolding shape parse_frame_body [OF idle side] by simp
  let ?pf = "\<lparr>cmd = ''A'' @ zeroed (17 - length ''A''), data = [] @ zeroed (65 - length ([] :: string)),
               sequence = (of_int (strtol16 [CHR ''0'', CHR ''1'']) :: u8),
               crc = (of_int (strtol16 [CHR ''0'', CHR ''0'']) :: u8), is_valid = False\<rparr>"
  have rebuilt: "frame_for_crc ?pf = ''A:#01''"
    by (simp add: frame_for_crc_def cstr_eval hex_field_values fmt_02X_def hex_upper_def frame_chars)
  have "crc8_table_loop 0 (map of_char ''A:#01'') = 0x0F"
    by (simp add: crc8_loops_agree crc8_shift_8 crc8_shift_def)
  then have bad: "\<not> comm_crc8_verify (Some (map of_char (frame_for_crc ?pf)))
                      (of_nat (length (frame_for_crc ?pf))) (crc ?pf)"
    unfolding rebuilt by (simp add: comm_crc8_verify_def comm_crc8_calculate_def hex_field_values)
  have "comm_process_byte_in_interrupt (hal_all_ok 0)
            (process_bytes (hal_all_ok 0) ?i ''{A:#01#00'') (CHR ''}'')
        = process_bytes (hal_all_ok 0) ?i
            ([COMM_FRAME_START] @ ''A'' @ [COMM_CMD_DATA_SEPARATOR] @ []
                 @ [COMM_FIELD_SEPARATOR] @ [CHR ''0'', CHR ''1''] @ [COMM_FIELD_SEPARATOR]
                 @ [CHR ''0'', CHR ''0''] @ [COMM_FRAME_END])"
    unfolding shape by (simp add: process_bytes_def COMM_FRAME_END_def)
  then have "\<not> new_frame_available (comm_process_byte_in_interrupt (hal_all_ok 0)
            (process_bytes (hal_all_ok 0) ?i ''{A:#01#00'') (CHR ''}''))"
    unfolding parse_frame_text [OF idle side] using bad by (simp add: Let_def)
  with in_crc show ?thesis by simp
qed

text \<open>
  C3, as the code has it. When \<open>}\<close> arrives in the CRC state with no frame pending,
  the parser returns to IDLE with index 0, stores the received CRC, sets the frame's
  \<open>is_valid\<close> to the comparison of the CRC-8 recomputed over the rebuilt
  \<open>CMD:DATA#SEQHEX\<close> text with the received one, and sets \<open>new_frame_available\<close>
  exactly when they are equal: a frame whose CRC does not match is not published.
\<close>

theorem frame_end_publishes_valid_only:
  assumes "\<not> new_frame_available instance" and "parse_state instance = FRAME_STATE_CRC"
  shows "let received = (of_int (strtol16 ((rx_buffer instance)[rx_index instance := NUL])) :: u8);
             rebuilt = frame_for_crc (pending_frame instance);
             computed = comm_crc8_calculate (Some (map of_char rebuilt)) (of_nat (length rebuilt));
             i' = comm_process_byte_in_interrupt h instance COMM_FRAME_END
         in parse_state i' = FRAME_STATE_IDLE \<and> rx_index i' = 0
            \<and> crc (pending_frame i') = received
            \<and> is_valid (pending_frame i') = (computed = received)
            \<and> new_frame_available i' = (computed = received)"
  using assms
  by (simp add: comm_process_byte_in_interrupt_def Let_def comm_crc8_verify_def
      frame_for_crc_def)

theorem frame_end_publishes_valid_only_witness:
  "\<not> new_frame_available
       (process_bytes (hal_all_ok 0) (initialized_instance (Some 1) 1000 3) ''{A:#01#0F'')
   \<and> parse_state (process_bytes (hal_all_ok 0) (initialized_instance (Some 1) 1000 3) ''{A:#01#0F'')
       = FRAME_STATE_CRC
   \<and> new_frame_available
        (comm_process_byte_in_interrupt (hal_all_ok 0)
          (process_bytes (hal_all_ok 0) (initialized_instance (Some 1) 1000 3) ''{A:#01#0F'')
          COMM_FRAME_END)
   \<and> is_valid (pending_frame
        (comm_process_byte_in_interrupt (hal_all_ok 0)
          (process_bytes (hal_all_ok 0) (initialized_instance (Some 1) 1000 3) ''{A:#01#0F'')
          COMM_FRAME_END))
   \<and> parse_state
        (comm_process_byte_in_interrupt (hal_all_ok 0)
          (process_bytes (hal_all_ok 0) (initialized_instance (Some 1) 1000 3) ''{A:#01#0F'')
          COMM_FRAME_END) = FRAME_STATE_IDLE"
proof -
  let ?i = "initialized_instance (Some 1) 1000 3"
  let ?x = "process_bytes (hal_all_ok 0) ?i ''{A:#01#0F''"
  note idle = initialized_parser_idle [of "Some 1" 1000 3]
  have shape: "''{A:#01#0F'' = [COMM_FRAME_START] @ ''A'' @ [COMM_CMD_DATA_SEPARATOR] @ []
                 @ [COMM_FIELD_SEPARATOR] @ [CHR ''0'', CHR ''1''] @ [COMM_FIELD_SEPARATOR]
                 @ [CHR ''0'', CHR ''F'']"
    by (simp add: frame_chars)
  have side: "length ''A'' \<le> 16" "COMM_CMD_DATA_SEPARATOR \<notin> set ''A''"
    "length ([] :: string) \<le> 64" "COMM_FIELD_SEPARATOR \<notin> set ([] :: string)"
    "CHR ''0'' \<noteq> COMM_FIELD_SEPARATOR" "CHR ''1'' \<noteq> COMM_FIELD_SEPARATOR"
    "CHR ''0'' \<noteq> COMM_FRAME_END" "CHR ''F'' \<noteq> COMM_FRAME_END"
    by (simp_all add: frame_chars)
  note x = parse_frame_body [OF idle side, of "hal_all_ok 0", folded shape]
  have pre: "\<not> new_frame_available ?x" "parse_state ?x = FRAME_STATE_CRC"
    unfolding x using idle(1) by simp_all
  have rb: "3 \<le> length ((rx_buffer ?i)[0 := CHR ''0'', Suc 0 := CHR ''1'', 2 := NUL])"
    using idle(3) by simp
  have received: "(of_int (strtol16 ((rx_buffer ?x)[rx_index ?x := NUL])) :: u8) = 0x0F"
    unfolding x using hex_field_buffer [OF rb, of "CHR ''0''" "CHR ''F''"]
    by (simp add: hex_field_values)
  have rebuilt: "frame_for_crc (pending_frame ?x) = ''A:#01''"
    unfolding x
    by (simp add: frame_for_crc_def zero_frame_def cstr_eval hex_field_values fmt_02X_def
        hex_upper_def frame_chars)
  have computed: "comm_crc8_calculate (Some (map of_char ''A:#01''))
                    (of_nat (length ''A:#01'')) = 0x0F"
    by (simp add: comm_crc8_calculate_def crc8_loops_agree crc8_shift_8 crc8_shift_def
        del: crc8_table_loop.simps)
  show ?thesis
    using pre frame_end_publishes_valid_only [OF pre, of "hal_all_ok 0"]
    unfolding Let_def received rebuilt computed
    by simp
qed

section \<open>Hand-over of the pending frame to the tick\<close>

lemma channel_2_received_value:
  "channel_2_received
     = channel_2\<lparr>parse_state := FRAME_STATE_IDLE, rx_index := 0,
                  frame_timeout := HAL_GetTick (hal_all_ok 0) + COMM_FRAME_TIMEOUT_MS,
                  rx_buffer := (rx_buffer channel_2)[0 := CHR ''0'', Suc 0 := CHR ''4'', 2 := NUL,
                                 0 := CHR ''5'', Suc 0 := CHR ''A'', 2 := NUL],
                  pending_frame := \<lparr>cmd = ''PING'' @ zeroed 13, data = ''TEST'' @ zeroed 61,
                                     sequence = 4, crc = 0x5A, is_valid = True\<rparr>,
                  new_frame_available := True\<rparr>"
proof -
  have idle: "\<not> new_frame_available channel_2" "parse_state channel_2 = FRAME_STATE_IDLE"
    "3 \<le> length (rx_buffer channel_2)"
    by (simp_all add: channel_2_def initialized_instance_def zeroed_def COMM_RX_BUFFER_SIZE_def)
  have shape: "''{PING:TEST#04#5A}''
                 = [COMM_FRAME_START] @ ''PING'' @ [COMM_CMD_DATA_SEPARATOR] @ ''TEST''
                     @ [COMM_FIELD_SEPARATOR] @ [CHR ''0'', CHR ''4''] @ [COMM_FIELD_SEPARATOR]
                     @ [CHR ''5'', CHR ''A''] @ [COMM_FRAME_END]"
    by (simp add: frame_chars)
  have side: "length ''PING'' \<le> 16" "COMM_CMD_DATA_SEPARATOR \<notin> set ''PING''"
    "length ''TEST'' \<le> 64" "COMM_FIELD_SEPARATOR \<notin> set ''TEST''"
    "CHR ''0'' \<noteq> COMM_FIELD_SEPARATOR" "CHR ''4'' \<noteq> COMM_FIELD_SEPARATOR"
    "CHR ''5'' \<noteq> COMM_FRAME_END" "CHR ''A'' \<noteq> COMM_FRAME_END"
    by (simp_all add: frame_chars)
  have fields: "(of_int (strtol16 [CHR ''0'', CHR ''4'']) :: u8) = 4"
    "(of_int (strtol16 [CHR ''5'', CHR ''A'']) :: u8) = 0x5A"
    by (simp_all add: strtol16_def isspace_def hex_digit_val_def cstr_eval)
  let ?pf = "\<lparr>cmd = ''PING'' @ zeroed (17 - length ''PING''),
               data = ''TEST'' @ zeroed (65 - length ''TEST''),
               sequence = (4 :: u8), crc = (0x5A :: u8), is_valid = False\<rparr>"
  have rebuilt: "frame_for_crc ?pf = ''PING:TEST#04''"
    by (simp add: frame_for_crc_def cstr_eval fmt_02X_def hex_upper_def frame_chars)
  have "crc8_table_loop 0 (map of_char ''PING:TEST#04'') = 0x5A"
    by (simp add: crc8_loops_agree crc8_shift_8 crc8_shift_def)
  then have ok: "comm_crc8_verify (Some (map of_char (frame_for_crc ?pf)))
                   (of_nat (length (frame_for_crc ?pf))) (crc ?pf)"
    unfolding rebuilt by (simp add: comm_crc8_verify_def comm_crc8_calculate_def)
  show ?thesis
    unfolding channel_2_received_def shape parse_frame_text [OF idle side] fields
    using ok by (simp add: Let_def)
qed

lemma channel_2_received_fields:
  "new_frame_available channel_2_received"
  "parse_state channel_2_received = FRAME_STATE_IDLE"
  "state channel_2_received = COMM_STATE_IDLE"
  "rx_sequence channel_2_received = 0"
  "huart channel_2_received = Some 2"
  "pending_frame channel_2_received
     = \<lparr>cmd = ''PING'' @ zeroed 13, data = ''TEST'' @ zeroed 61, sequence = 4, crc = 0x5A,
        is_valid = True\<rparr>"
  "find_callback_from (take COMM_MAX_CALLBACKS (handlers channel_2_received)) 0
     (''PING'' @ zeroed 13) = Some 0"
  "callback (handlers channel_2_received ! 0) = Some 9"
  unfolding channel_2_received_value
  by (simp_all add: channel_2_def initialized_instance_def
      COMM_MAX_CALLBACKS_def zero_handler_def cstr_eval eval_nat_numeral)

lemma control_frame_ack_4: "control_frame COMM_CMD_ACK 4 = ''{ACK:04#00#CB}''"
  by (simp add: control_frame_def fmt_02X_def hex_upper_def Let_def crc8_eval frame_chars)

lemma channel_2_received_handled:
  "comm_handle_complete_frame h channel_2_received (pending_frame channel_2_received)
     = (emit (emit (h\<lparr>transmit_calls := Suc (transmit_calls h)\<rparr>)
                (UART_Transmit (Some 2) ''{ACK:04#00#CB}''))
          (Command_Callback 9 ''PING'' ''TEST''),
        channel_2_received\<lparr>rx_sequence := 4\<rparr>)"
  unfolding channel_2_received_fields(6)
  by (simp add: comm_handle_complete_frame_def cstr_eval frame_chars
      comm_is_valid_rx_sequence_def rx_sequence_diff_def
      channel_2_received_fields [unfolded append_Cons append_Nil]
      comm_update_rx_sequence_def comm_send_ack_def HAL_UART_Transmit_def
      comm_call_callback_def comm_find_callback_index_def Let_def
      control_frame_ack_4 [unfolded frame_chars])

lemma idle_channel_tick:
  "tick_instance h (initialized_instance u t r) = (h, initialized_instance u t r)"
  by (simp add: tick_instance_def comm_is_timeout_def comm_is_frame_timeout_def
      initialized_instance_def)

text \<open>
  C10. While \<open>new_frame_available\<close> is set, \<open>comm_process_byte_in_interrupt\<close> returns
  the instance unchanged for every byte, hence for every byte string. The flag is cleared
  by \<open>comm_tick\<close>: for the channel at index \<open>k\<close> of the manager the flag is clear
  afterwards, and with the parser idle (as it is whenever the parser has set the flag)
  the tick, having first run the send-timeout handling if that timeout has expired, hands
  the pending frame to \<open>comm_handle_complete_frame\<close> in the environment the channels
  before \<open>k\<close> have left, and the channel afterwards is the handler's result with the
  flag cleared and the pending frame zeroed. From then on bytes are parsed again:
  a frame start moves the parser to the command state.
\<close>

theorem process_byte_discards_while_frame_available:
  assumes "new_frame_available instance"
  shows "comm_process_byte_in_interrupt h instance byte = instance
         \<and> process_bytes h instance bytes = instance
         \<and> (k < instance_count mgr \<and> instance_count mgr \<le> length (instances mgr)
              \<and> instances mgr ! k = instance
            \<longrightarrow> \<not> new_frame_available (instances (snd (comm_tick h' mgr)) ! k)
                \<and> (parse_state instance = FRAME_STATE_IDLE
                   \<longrightarrow> (let hk = fst (tick_from h' (take k (instances mgr)));
                            (h1, i1) = (if comm_is_timeout hk instance
                                        then comm_handle_timeout hk instance else (hk, instance));
                            (h3, i3) = comm_handle_complete_frame h1 i1 (pending_frame instance);
                            instance' = instances (snd (comm_tick h' mgr)) ! k
                        in instance' = i3\<lparr>new_frame_available := False,
                                            pending_frame := zero_frame\<rparr>
                           \<and> fst (tick_from h' (take (Suc k) (instances mgr))) = h3
                           \<and> comm_process_byte_in_interrupt h'' instance' COMM_FRAME_START
                               = instance'\<lparr>parse_state := FRAME_STATE_CMD, rx_index := 0,
                                   frame_timeout := HAL_GetTick h'' + COMM_FRAME_TIMEOUT_MS,
                                   pending_frame := zero_frame\<rparr>)))"
proof -
  have one: "comm_process_byte_in_interrupt h instance byte = instance"
    using assms by (simp add: comm_process_byte_in_interrupt_def)
  have consumed: "(let hk = fst (tick_from h' (take k (instances mgr)));
                            (h1, i1) = (if comm_is_timeout hk instance
                                        then comm_handle_timeout hk instance else (hk, instance));
                            (h3, i3) = comm_handle_complete_frame h1 i1 (pending_frame instance);
                            instance' = instances (snd (comm_tick h' mgr)) ! k
                        in instance' = i3\<lparr>new_frame_available := False,
                                            pending_frame := zero_frame\<rparr>
                           \<and> fst (tick_from h' (take (Suc k) (instances mgr))) = h3
                           \<and> comm_process_byte_in_interrupt h'' instance' COMM_FRAME_START
                               = instance'\<lparr>parse_state := FRAME_STATE_CMD, rx_index := 0,
                                   frame_timeout := HAL_GetTick h'' + COMM_FRAME_TIMEOUT_MS,
                                   pending_frame := zero_frame\<rparr>)"
    if mgr: "k < instance_count mgr" "instance_count mgr \<le> length (instances mgr)"
      "instances mgr ! k = instance" and idle: "parse_state instance = FRAME_STATE_IDLE"
  proof -
    define hk where "hk = fst (tick_from h' (take k (instances mgr)))"
    define s1 where "s1 = (if comm_is_timeout hk instance
                           then comm_handle_timeout hk instance else (hk, instance))"
    define s3 where "s3 = comm_handle_complete_frame (fst s1) (snd s1) (pending_frame instance)"
    define instance' where "instance' = instances (snd (comm_tick h' mgr)) ! k"
    have ticked: "tick_instance hk instance
                    = (fst s3, (snd s3)\<lparr>new_frame_available := False, pending_frame := zero_frame\<rparr>)"
      unfolding tick_instance_consumes [OF assms idle] s3_def s1_def
      by (simp add: Let_def split_beta)
    have after: "instance' = (snd s3)\<lparr>new_frame_available := False, pending_frame := zero_frame\<rparr>"
      unfolding instance'_def comm_tick_nth(1) [OF mgr(1,2)] mgr(3) hk_def [symmetric] ticked
      by simp
    have env: "fst (tick_from h' (take (Suc k) (instances mgr))) = fst s3"
      unfolding comm_tick_nth(2) [OF mgr(1,2)] mgr(3) hk_def [symmetric] ticked
      by simp
    have "parse_state (snd s1) = FRAME_STATE_IDLE"
      using idle by (simp add: s1_def comm_handle_timeout_parser_fields(2))
    then have ready: "parse_state instance' = FRAME_STATE_IDLE" "\<not> new_frame_available instance'"
      by (simp_all add: after s3_def handle_complete_frame_parse_state)
    have next_byte: "comm_process_byte_in_interrupt h'' instance' COMM_FRAME_START
                   = instance'\<lparr>parse_state := FRAME_STATE_CMD, rx_index := 0,
                                   frame_timeout := HAL_GetTick h'' + COMM_FRAME_TIMEOUT_MS,
                                   pending_frame := zero_frame\<rparr>"
      using ready by (simp add: comm_process_byte_in_interrupt_def)
    show ?thesis
      using after env next_byte
      by (simp add: Let_def split_beta hk_def [symmetric] s1_def [symmetric] s3_def [symmetric]
          instance'_def [symmetric])
  qed
  have cleared: "\<not> new_frame_available (instances (snd (comm_tick h' mgr)) ! k)"
    if "k < instance_count mgr" "instance_count mgr \<le> length (instances mgr)"
    unfolding comm_tick_nth(1) [OF that] by (rule tick_instance_clears)
  show ?thesis
    using one process_bytes_discards [OF assms] consumed cleared by blast
qed

theorem process_byte_discards_while_frame_available_witness:
  "new_frame_available channel_2_received
   \<and> comm_process_byte_in_interrupt (hal_all_ok 1) channel_2_received COMM_FRAME_START
       = channel_2_received
   \<and> process_bytes (hal_all_ok 1) channel_2_received ''{STOP:NOW#05#2C}'' = channel_2_received
   \<and> trace (fst (comm_tick (hal_all_ok 5) two_channels))
       = [UART_Transmit (Some 2) ''{ACK:04#00#CB}'', Command_Callback 9 ''PING'' ''TEST'']
   \<and> instances (snd (comm_tick (hal_all_ok 5) two_channels)) ! 1
       = channel_2_received\<lparr>rx_sequence := 4, new_frame_available := False,
                             pending_frame := zero_frame\<rparr>
   \<and> parse_state (comm_process_byte_in_interrupt (hal_all_ok 6)
        (instances (snd (comm_tick (hal_all_ok 5) two_channels)) ! 1) COMM_FRAME_START)
       = FRAME_STATE_CMD"
proof -
  note f = channel_2_received_fields
  have mgr: "1 < instance_count two_channels"
    "instance_count two_channels \<le> length (instances two_channels)"
    "instances two_channels ! 1 = channel_2_received"
    "take 1 (instances two_channels) = [initialized_instance (Some 1) 1000 3]"
    "take 2 (instances two_channels) = take (instance_count two_channels) (instances two_channels)"
    by (simp_all add: two_channels_def)
  have before: "fst (tick_from (hal_all_ok 5) (take 1 (instances two_channels))) = hal_all_ok 5"
    unfolding mgr(4) by (simp add: idle_channel_tick)
  have quiet: "\<not> comm_is_timeout (hal_all_ok 5) channel_2_received"
    by (simp add: comm_is_timeout_def f)
  have env: "trace (emit (emit (hal_all_ok 5\<lparr>transmit_calls := Suc (transmit_calls (hal_all_ok 5))\<rparr>)
                (UART_Transmit (Some 2) ''{ACK:04#00#CB}''))
          (Command_Callback 9 ''PING'' ''TEST''))
        = [UART_Transmit (Some 2) ''{ACK:04#00#CB}'', Command_Callback 9 ''PING'' ''TEST'']"
    by (simp add: emit_def hal_all_ok_def)
  note w = process_byte_discards_while_frame_available [OF f(1), of "hal_all_ok 1"
      COMM_FRAME_START "''{STOP:NOW#05#2C}''" 1 two_channels "hal_all_ok 5" "hal_all_ok 6"]
  have discards:
    "comm_process_byte_in_interrupt (hal_all_ok 1) channel_2_received COMM_FRAME_START
       = channel_2_received"
    "process_bytes (hal_all_ok 1) channel_2_received ''{STOP:NOW#05#2C}'' = channel_2_received"
    using w by simp_all
  have consumed:
    "instances (snd (comm_tick (hal_all_ok 5) two_channels)) ! 1
       = channel_2_received\<lparr>rx_sequence := 4, new_frame_available := False,
                             pending_frame := zero_frame\<rparr>"
    "fst (comm_tick (hal_all_ok 5) two_channels)
       = emit (emit (hal_all_ok 5\<lparr>transmit_calls := Suc (transmit_calls (hal_all_ok 5))\<rparr>)
                (UART_Transmit (Some 2) ''{ACK:04#00#CB}''))
          (Command_Callback 9 ''PING'' ''TEST'')"
    using w f(2) mgr(1,2,3)
    unfolding before Let_def
    by (simp_all add: quiet channel_2_received_handled mgr(5) comm_tick_env [symmetric]
        del: One_nat_def)
  have accepted:
    "parse_state (comm_process_byte_in_interrupt (hal_all_ok 6)
        (channel_2_received\<lparr>rx_sequence := 4, new_frame_available := False,
                             pending_frame := zero_frame\<rparr>) COMM_FRAME_START)
       = FRAME_STATE_CMD"
    by (simp add: comm_process_byte_in_interrupt_def f(2))
  show ?thesis
    by (simp only: f(1) discards consumed accepted env simp_thms)
qed
section \<open>Sending, timeouts and retries\<close>

lemma emit_fields [simp]:
  "transmit_status (emit h e) = transmit_status h"
  "transmit_calls (emit h e) = transmit_calls h"
  "tick (emit h e) = tick h"
  by (simp_all add: emit_def)

lemma fail_callbacks_emit:
  "fail_callbacks (emit h e) = fail_callbacks h @ (if is_fail_callback e then [e] else [])"
  by (simp add: fail_callbacks_def emit_def)

lemma fail_callbacks_tick [simp]: "fail_callbacks (h\<lparr>tick := t\<rparr>) = fail_callbacks h"
  by (simp add: fail_callbacks_def)

lemma fail_callbacks_calls [simp]:
  "fail_callbacks (h\<lparr>transmit_calls := n\<rparr>) = fail_callbacks h"
  by (simp add: fail_callbacks_def)


lemma comm_set_state_effect:
  "snd (comm_set_state h i s) = i\<lparr>state := s\<rparr>"
  "fail_callbacks (fst (comm_set_state h i s)) = fail_callbacks h"
  "transmit_status (fst (comm_set_state h i s)) = transmit_status h"
  "transmit_calls (fst (comm_set_state h i s)) = transmit_calls h"
  "tick (fst (comm_set_state h i s)) = tick h"
  by (simp_all add: comm_set_state_def Let_def fail_callbacks_emit split: option.splits)

lemma transmit_effect:
  "fail_callbacks (fst (HAL_UART_Transmit h u bs)) = fail_callbacks h"
  "transmit_status (fst (HAL_UART_Transmit h u bs)) = transmit_status h"
  "tick (fst (HAL_UART_Transmit h u bs)) = tick h"
  "snd (HAL_UART_Transmit h u bs) = transmit_status h (transmit_calls h)"
  "fail_callbacks (fst (HAL_UART_Transmit_IT h u bs)) = fail_callbacks h"
  "transmit_status (fst (HAL_UART_Transmit_IT h u bs)) = transmit_status h"
  "tick (fst (HAL_UART_Transmit_IT h u bs)) = tick h"
  "snd (HAL_UART_Transmit_IT h u bs) = transmit_status h (transmit_calls h)"
  by (simp_all add: HAL_UART_Transmit_def HAL_UART_Transmit_IT_def fail_callbacks_emit)

lemma comm_send_raw_effect:
  "fail_callbacks (fst (comm_send_raw h i buf n)) = fail_callbacks h"
  "transmit_status (fst (comm_send_raw h i buf n)) = transmit_status h"
  "fst (snd (comm_send_raw h i buf n))
     = i\<lparr>last_send_time := last_send_time (fst (snd (comm_send_raw h i buf n)))\<rparr>"
  by (auto simp add: comm_send_raw_def Let_def HAL_UART_Transmit_def fail_callbacks_emit
      split: prod.splits)







lemma send_on_instance_rejects:
  assumes "state i \<noteq> COMM_STATE_IDLE \<or> strlen name \<ge> COMM_MAX_CMD_LENGTH
             \<or> strlen payload \<ge> COMM_MAX_DATA_LENGTH"
  shows "send_on_instance h i (Some name) (Some payload) = (h, i, False)"
  using assms by (auto simp add: send_on_instance_def comm_instance_is_ready_def)

lemma send_on_instance_accepts:
  assumes "state i = COMM_STATE_IDLE"
    and "strlen name < COMM_MAX_CMD_LENGTH" and "strlen payload < COMM_MAX_DATA_LENGTH"
    and "transmit_status h (transmit_calls h)"
    and "send_on_instance h i (Some name) (Some payload) = (h', i', ok)"
  shows "ok" and "state i' = COMM_STATE_WAIT_ACK" and "retry_count i' = 0"
    and "last_send_time i' = tick h"
    and "max_retry i' = max_retry i" and "fail_callback i' = fail_callback i"
    and "timeout_ms i' = timeout_ms i" and "new_frame_available i' = new_frame_available i"
    and "current_cmd i' = (strncpy (current_cmd i) name (COMM_MAX_CMD_LENGTH - 1))
                            [COMM_MAX_CMD_LENGTH - 1 := NUL]"
    and "current_data i' = (strncpy (current_data i) payload (COMM_MAX_DATA_LENGTH - 1))
                             [COMM_MAX_DATA_LENGTH - 1 := NUL]"
    and "fail_callbacks h' = fail_callbacks h" and "transmit_status h' = transmit_status h"
proof -
  define i1 where "i1 = i\<lparr>current_cmd := (strncpy (current_cmd i) name (COMM_MAX_CMD_LENGTH - 1))
                                         [COMM_MAX_CMD_LENGTH - 1 := NUL],
                        current_data := (strncpy (current_data i) payload (COMM_MAX_DATA_LENGTH - 1))
                                         [COMM_MAX_DATA_LENGTH - 1 := NUL],
                        retry_count := 0\<rparr>"
  have le: "strlen name \<le> COMM_MAX_CMD_LENGTH" "strlen payload \<le> COMM_MAX_DATA_LENGTH"
    using assms(2,3) by simp_all
  obtain i2 buf n where built: "comm_build_frame i1 name payload (tx_buffer i1) = (i2, buf, Some n)"
    and i2: "i2 = i1\<lparr>tx_sequence := tx_sequence i2, current_sequence := current_sequence i2,
                       expected_ack_seq := expected_ack_seq i2\<rparr>"
    unfolding comm_build_frame_text [OF le, of i1 "tx_buffer i1"] Let_def
    by (simp add: i1_def)
  define i5 where "i5 = (if strlen (cmd (pending_frame (i2\<lparr>tx_buffer := buf, tx_length := n\<rparr>))) > 0
                         then i2\<lparr>tx_buffer := buf, tx_length := n, pending_frame := zero_frame\<rparr>
                         else i2\<lparr>tx_buffer := buf, tx_length := n\<rparr>)"
  define h1 where "h1 = fst (HAL_UART_Transmit h (huart i5) (take n (tx_buffer i5)))"
  have ready: "comm_instance_is_ready i"
    using assms(1) by (simp add: comm_instance_is_ready_def)
  have result: "send_on_instance h i (Some name) (Some payload)
          = (fst (comm_set_state h1 i5 COMM_STATE_WAIT_ACK),
             (snd (comm_set_state h1 i5 COMM_STATE_WAIT_ACK))
               \<lparr>last_send_time := HAL_GetTick (fst (comm_set_state h1 i5 COMM_STATE_WAIT_ACK))\<rparr>,
             True)"
    using ready assms(2,3,4)
    unfolding send_on_instance_def
    by (simp add: Let_def i1_def [symmetric] built i5_def h1_def transmit_effect split_beta
        del: One_nat_def)
  have fields: "state i5 = state i" "max_retry i5 = max_retry i" "fail_callback i5 = fail_callback i"
    "timeout_ms i5 = timeout_ms i" "new_frame_available i5 = new_frame_available i"
    "retry_count i5 = 0" "current_cmd i5 = current_cmd i1" "current_data i5 = current_data i1"
    by (simp_all add: i5_def, (subst i2, simp add: i1_def)+)
  have out: "h' = fst (comm_set_state h1 i5 COMM_STATE_WAIT_ACK)"
    "i' = (snd (comm_set_state h1 i5 COMM_STATE_WAIT_ACK))
               \<lparr>last_send_time := HAL_GetTick (fst (comm_set_state h1 i5 COMM_STATE_WAIT_ACK))\<rparr>"
    "ok"
    using assms(5) result by auto
  show "ok" by (rule out(3))
  show "state i' = COMM_STATE_WAIT_ACK" "retry_count i' = 0"
    "max_retry i' = max_retry i" "fail_callback i' = fail_callback i"
    "timeout_ms i' = timeout_ms i" "new_frame_available i' = new_frame_available i"
    by (simp_all add: out comm_set_state_effect fields)
  show "last_send_time i' = tick h"
    by (simp add: out comm_set_state_effect HAL_GetTick_def h1_def transmit_effect)
  show "current_cmd i' = (strncpy (current_cmd i) name (COMM_MAX_CMD_LENGTH - 1))
                            [COMM_MAX_CMD_LENGTH - 1 := NUL]"
    "current_data i' = (strncpy (current_data i) payload (COMM_MAX_DATA_LENGTH - 1))
                             [COMM_MAX_DATA_LENGTH - 1 := NUL]"
    by (simp_all add: out comm_set_state_effect fields) (simp_all add: i1_def)
  show "fail_callbacks h' = fail_callbacks h" "transmit_status h' = transmit_status h"
    by (simp_all add: out comm_set_state_effect h1_def transmit_effect)
qed









lemma channel_1_fields:
  "state channel_1 = COMM_STATE_IDLE" "max_retry channel_1 = 3"
  "fail_callback channel_1 = Some 7" "\<not> new_frame_available channel_1"
  "length (current_cmd channel_1) = COMM_MAX_CMD_LENGTH"
  "length (current_data channel_1) = COMM_MAX_DATA_LENGTH"
  "timeout_ms channel_1 = 1000"
  by (simp_all add: channel_1_def initialized_instance_def zeroed_def)







lemma transmissions_tick [simp]: "transmissions (h\<lparr>tick := t\<rparr>) = transmissions h"
  by (simp add: transmissions_def)

lemma transmissions_calls [simp]:
  "transmissions (h\<lparr>transmit_calls := n\<rparr>) = transmissions h"
  by (simp add: transmissions_def)








section \<open>Retry exhaustion\<close>



section \<open>Length bounds of a send\<close>

lemma send_on_instance_fails_iff:
  assumes "transmit_status h (transmit_calls h)"
  shows "(\<not> snd (snd (send_on_instance h i (Some name) (Some payload))))
           = (state i \<noteq> COMM_STATE_IDLE \<or> strlen name \<ge> COMM_MAX_CMD_LENGTH
              \<or> strlen payload \<ge> COMM_MAX_DATA_LENGTH)"
proof (cases "state i \<noteq> COMM_STATE_IDLE \<or> strlen name \<ge> COMM_MAX_CMD_LENGTH
              \<or> strlen payload \<ge> COMM_MAX_DATA_LENGTH")
  case True
  then show ?thesis
    by (simp add: send_on_instance_rejects)
next
  case False
  obtain h' i' ok where r: "send_on_instance h i (Some name) (Some payload) = (h', i', ok)"
    by (cases "send_on_instance h i (Some name) (Some payload)")
  from False have "state i = COMM_STATE_IDLE" "strlen name < COMM_MAX_CMD_LENGTH"
    "strlen payload < COMM_MAX_DATA_LENGTH"
    by simp_all
  from send_on_instance_accepts(1) [OF this assms r] False show ?thesis
    by (simp add: r)
qed

text \<open>
  C7. The claim is that a send from IDLE fails exactly when the command exceeds 16 bytes
  or the data exceeds 64 bytes, so that a command of 16 bytes is transmitted.
  \<open>comm_send_command\<close> tests \<open>strlen(cmd) >= COMM_MAX_CMD_LENGTH\<close> where
  \<open>comm_build_frame\<close> tests \<open>>\<close>: for the 16 byte command below the builder
  produces a frame, but the send returns false with nothing transmitted and the manager
  unchanged.
\<close>

theorem send_command_refuses_16_byte_command:
  "strlen ''ABCDEFGHIJKLMNOP'' = 16
   \<and> state channel_1 = COMM_STATE_IDLE
   \<and> comm_send_command (hal_all_ok 0) \<lparr>instances = [channel_1], instance_count = 1\<rparr> (Some 1)
        (Some ''ABCDEFGHIJKLMNOP'') (Some '''')
      = (hal_all_ok 0, \<lparr>instances = [channel_1], instance_count = 1\<rparr>, False)
   \<and> snd (snd (comm_build_frame channel_1 ''ABCDEFGHIJKLMNOP'' '''' (tx_buffer channel_1)))
      = Some 25"
proof -
  have len: "strlen ''ABCDEFGHIJKLMNOP'' = 16" "strlen '''' = 0"
    by (simp_all add: strlen_def cstr_eval)
  have found: "comm_find_instance \<lparr>instances = [channel_1], instance_count = 1\<rparr> (Some 1) = Some 0"
    by (simp add: comm_find_instance_def channel_1_def initialized_instance_def)
  have refused: "send_on_instance (hal_all_ok 0) channel_1 (Some ''ABCDEFGHIJKLMNOP'') (Some '''')
                   = (hal_all_ok 0, channel_1, False)"
    by (rule send_on_instance_rejects) (simp add: len COMM_MAX_CMD_LENGTH_def)
  have sent: "comm_send_command (hal_all_ok 0) \<lparr>instances = [channel_1], instance_count = 1\<rparr>
                (Some 1) (Some ''ABCDEFGHIJKLMNOP'') (Some '''')
              = (hal_all_ok 0, \<lparr>instances = [channel_1], instance_count = 1\<rparr>, False)"
    unfolding comm_send_command_def found by (simp add: refused)
  have le: "strlen ''ABCDEFGHIJKLMNOP'' \<le> COMM_MAX_CMD_LENGTH"
    "strlen '''' \<le> COMM_MAX_DATA_LENGTH"
    by (simp_all add: len COMM_MAX_CMD_LENGTH_def COMM_MAX_DATA_LENGTH_def)
  have built: "snd (snd (comm_build_frame channel_1 ''ABCDEFGHIJKLMNOP'' ''''
                 (tx_buffer channel_1))) = Some 25"
    unfolding comm_build_frame_text [OF le] Let_def
    by (simp add: cstr_eval fmt_02X_def)
  show ?thesis
    using len(1) channel_1_fields(1) sent built by simp
qed

end
